theory Spec2Isabelle
  imports Main "HOL-Library.Word"
begin

section \<open>Strings and numbers of the source language\<close>

text \<open>
  A string of the source is a sequence of 16-bit code units: \<open>charCodeAt\<close> reads one
  unit, \<open>split('')\<close> cuts at every unit, and the regular expressions of the source
  (written without the \<open>u\<close> flag) match unit by unit. \<open>js\<close> turns an ASCII literal of
  this theory into such a string.
\<close>

type_synonym code_unit = "16 word"
type_synonym jsstring = "code_unit list"

definition js :: "string \<Rightarrow> jsstring" where
  "js s = map (\<lambda>c. of_nat (of_char c)) s"

text \<open>
  \<open>ToInt32\<close>: the conversion every bitwise operator applies to its operands and its
  result. The numbers met in \<open>hashCode\<close> are integers far below \<open>2 ^ 53\<close>, where the
  floating-point arithmetic of the source is exact, so they are modelled as \<open>int\<close>.
\<close>

definition toInt32 :: "int \<Rightarrow> int" where
  "toInt32 x = (x + 2 ^ 31) mod 2 ^ 32 - 2 ^ 31"

text \<open>\<open>a << n\<close> on numbers: both operands through \<open>ToInt32\<close>, the result read as signed.\<close>

definition shl :: "int \<Rightarrow> nat \<Rightarrow> int" where
  "shl a n = toInt32 (toInt32 a * 2 ^ (n mod 32))"

text \<open>\<open>a | 0\<close>.\<close>

definition or0 :: "int \<Rightarrow> int" where
  "or0 a = toInt32 a"

text \<open>\<open>Number.prototype.toString(16)\<close> on a non-negative integer.\<close>

definition hexDigit :: "nat \<Rightarrow> code_unit" where
  "hexDigit d = (if d < 10 then 0x30 + of_nat d else 0x61 + of_nat (d - 10))"

function toString16 :: "nat \<Rightarrow> jsstring" where
  "toString16 n = (if n < 16 then [hexDigit n] else toString16 (n div 16) @ [hexDigit (n mod 16)])"
  by pat_completeness auto
termination
  by (relation "measure id") auto

declare toString16.simps [simp del]

section \<open>Identity resolver: the fold hash\<close>

text \<open>
  \<^verbatim>\<open>
  function hashCode(str: string) {
    const h = str.split('').reduce((prev, curr) => ((prev << 5) - prev + curr.charCodeAt(0)) | 0, 0);
    return Math.abs(h).toString(16);
  }
  \<close>
\<close>

definition charCodeAt0 :: "code_unit \<Rightarrow> int" where
  "charCodeAt0 c = uint c"

definition hashStep :: "int \<Rightarrow> code_unit \<Rightarrow> int" where
  "hashStep prev ch = or0 (shl prev 5 - prev + charCodeAt0 ch)"

definition hashFold :: "jsstring \<Rightarrow> int" where
  "hashFold str = foldl hashStep 0 str"

definition hashCode :: "jsstring \<Rightarrow> jsstring" where
  "hashCode str = toString16 (nat \<bar>hashFold str\<bar>)"

text \<open>
  The hash as the specification words it: fold \<open>acc = acc * 31 + charCode\<close>, wrapped to a
  signed 32-bit integer at every step, then the absolute value in hexadecimal.
\<close>

definition hashFold_spec :: "jsstring \<Rightarrow> int" where
  "hashFold_spec str = foldl (\<lambda>acc c. toInt32 (acc * 31 + uint c)) 0 str"

definition hashCode_spec :: "jsstring \<Rightarrow> jsstring" where
  "hashCode_spec str = toString16 (nat \<bar>hashFold_spec str\<bar>)"

text \<open>The value a string of hexadecimal digits denotes, to state what \<open>toString16\<close> prints.\<close>

definition hexValue :: "code_unit \<Rightarrow> nat" where
  "hexValue c = (if c < 0x3A then unat c - 0x30 else unat c - 0x61 + 10)"

definition hexNumber :: "jsstring \<Rightarrow> nat" where
  "hexNumber s = foldl (\<lambda>acc c. acc * 16 + hexValue c) 0 s"

section \<open>Errors\<close>

text \<open>
  Every \<open>throw\<close> of the source is a value. \<open>Error msg\<close> is \<open>new Error(msg)\<close>;
  \<open>TypeError\<close> is the exception the runtime raises by itself when a property is read
  from \<open>undefined\<close> and \<open>ReferenceError\<close> the one it raises when a name that is not
  declared is read (unguarded crashes, with no message of the program's own);
  \<open>MissingModuleTagError\<close> and \<open>DefaultOrNamespaceImportUsedError\<close> are the error classes
  the indexer imports, built from the file name; \<open>NotStaticValueError\<close> stands for what the
  attribute analysers of the indexer raise, with the file name, on a value that is not static.
\<close>

datatype error =
    Error jsstring
  | TypeError
  | ReferenceError
  | MissingModuleTagError jsstring
  | DefaultOrNamespaceImportUsedError jsstring
  | NotStaticValueError jsstring

section \<open>The template tree\<close>

text \<open>
  The part of an expression the accessors look at: a literal (boolean, string, or another
  kind), an identifier, an array, a call (callee and arguments), or any other expression.
\<close>

datatype literal = BooleanLiteral bool | StringLiteral jsstring | OtherLiteral

datatype expression =
    Literal literal
  | Identifier jsstring
  | ArrayExpression "expression list"
  | CallExpression expression "expression list"
  | OtherExpression

text \<open>
  An attribute value is \<open>true\<close> (a bare attribute) or an array of text chunks and
  expression tags. Spread attributes and directives have another \<open>type\<close> than
  \<open>'Attribute'\<close>.
\<close>

datatype attribute_part = Text jsstring | ExpressionTag expression

datatype attribute_value = ValueTrue | ValueParts "attribute_part list"

datatype attribute =
    Attribute (attr_name: jsstring) (attr_value: attribute_value)
  | OtherAttribute

text \<open>
  Template nodes, each with its \<open>start\<close> and \<open>end\<close> offsets into the source text.
  The walkers register handlers for comments and components only, and the raw-source
  recovery looks for snippet blocks; every other kind of node (text, elements, blocks,
  expression tags) is \<open>OtherNode\<close>, holding the child nodes the default pass-through
  visits, in order.
\<close>

datatype node =
    Comment (data: jsstring) (node_start: nat) (node_end: nat)
  | Component (node_name: jsstring) (attributes: "attribute list") (fragment: "node list")
      (node_start: nat) (node_end: nat)
  | SnippetBlock (snippet_name: jsstring) (body: "node list") (node_start: nat) (node_end: nat)
  | OtherNode (children: "node list") (node_start: nat) (node_end: nat)

text \<open>
  \<open>rawSource.slice(start, end)\<close> for offsets that are not negative: both are clamped to
  the length, and an end before the start gives the empty string.
\<close>

definition slice :: "jsstring \<Rightarrow> nat \<Rightarrow> nat \<Rightarrow> jsstring" where
  "slice s from to = take (to - from) (drop from s)"

section \<open>Attribute accessors\<close>

text \<open>
  \<^verbatim>\<open>
  export function lookupAttribute(name, attributes) {
    return attributes.find((node) => {
      if (node.type === 'Attribute' && node.name === name) { return node.value; }
    }) as Attribute | undefined;
  }
  \<close>
  The callback answers with the value, which is \<open>true\<close> or an array: always truthy.
\<close>

definition lookupAttribute :: "jsstring \<Rightarrow> attribute list \<Rightarrow> attribute option" where
  "lookupAttribute name attrs =
     find (\<lambda>node. case node of Attribute n v \<Rightarrow> n = name | OtherAttribute \<Rightarrow> False) attrs"

text \<open>The quotation marks of the messages.\<close>

definition apostrophe :: jsstring where
  "apostrophe = [0x27]"

definition quote :: jsstring where
  "quote = [0x22]"

definition getBooleanFromAttribute :: "jsstring \<Rightarrow> attribute list \<Rightarrow> error + bool option" where
  "getBooleanFromAttribute name attrs =
     (case lookupAttribute name attrs of
        None \<Rightarrow> Inr None
      | Some attribute \<Rightarrow>
          (case attr_value attribute of
             ValueTrue \<Rightarrow> Inr (Some True)
           | ValueParts [ExpressionTag (Literal (BooleanLiteral b))] \<Rightarrow> Inr (Some b)
           | ValueParts _ \<Rightarrow>
               Inl (Error (js ''Attribute '' @ quote @ name @ quote @ js '' is not a static boolean''))))"

definition getStringFromAttribute :: "jsstring \<Rightarrow> attribute list \<Rightarrow> error + jsstring option" where
  "getStringFromAttribute name attrs =
     (case lookupAttribute name attrs of
        None \<Rightarrow> Inr None
      | Some attribute \<Rightarrow>
          (case attr_value attribute of
             ValueTrue \<Rightarrow>
               Inl (Error (js ''Attribute '' @ apostrophe @ name @ apostrophe @ js '' is not a string''))
           | ValueParts [Text d] \<Rightarrow> Inr (Some d)
           | ValueParts _ \<Rightarrow>
               Inl (Error (js ''Attribute '' @ quote @ name @ quote @ js '' is not a static string''))))"

text \<open>
  \<^verbatim>\<open>
  try { value = getBooleanFromAttribute(name, attributes); }
  catch { value = getStringFromAttribute(name, attributes); }
  \<close>
\<close>

datatype source_value = SourceBoolean bool | SourceString jsstring

definition getSourceAttribute :: "attribute list \<Rightarrow> error + source_value option" where
  "getSourceAttribute attrs =
     (case getBooleanFromAttribute (js ''source'') attrs of
        Inr v \<Rightarrow> Inr (map_option SourceBoolean v)
      | Inl _ \<Rightarrow>
          (case getStringFromAttribute (js ''source'') attrs of
             Inl e \<Rightarrow> Inl e
           | Inr v \<Rightarrow> Inr (map_option SourceString v)))"

section \<open>Identity resolver\<close>

text \<open>
  \<^verbatim>\<open>
  let name = getStringFromAttribute('name', attributes);
  if (!name) { throw new Error(`Missing prop 'name' in <Story> component.`); }
  if (storiesNames.has(name)) {
    throw new Error(`Story name - ${name} - conflicts with another story.`);
  }
  return name;
  \<close>
  \<open>!name\<close> holds for \<open>undefined\<close> and for the empty string.
\<close>

definition getStoryName :: "attribute list \<Rightarrow> jsstring set \<Rightarrow> error + jsstring" where
  "getStoryName attrs storiesNames =
     (case getStringFromAttribute (js ''name'') attrs of
        Inl e \<Rightarrow> Inl e
      | Inr None \<Rightarrow>
          Inl (Error (js ''Missing prop '' @ apostrophe @ js ''name'' @ apostrophe
                      @ js '' in <Story> component.''))
      | Inr (Some name) \<Rightarrow>
          if name = [] then
            Inl (Error (js ''Missing prop '' @ apostrophe @ js ''name'' @ apostrophe
                        @ js '' in <Story> component.''))
          else if name \<in> storiesNames then
            Inl (Error (js ''Story name - '' @ name @ js '' - conflicts with another story.''))
          else Inr name)"

text \<open>
  The regular expression \<open>/\W+(.|$)/g\<close>. \<open>\W\<close> is any code unit outside
  \<open>[A-Za-z0-9_]\<close>; \<open>.\<close> is any code unit but the four line terminators; \<open>$\<close>,
  without the \<open>m\<close> flag, is the end of the string.
\<close>

definition isWordChar :: "code_unit \<Rightarrow> bool" where
  "isWordChar c \<longleftrightarrow>
     (0x30 \<le> c \<and> c \<le> 0x39) \<or> (0x41 \<le> c \<and> c \<le> 0x5A) \<or> c = 0x5F \<or> (0x61 \<le> c \<and> c \<le> 0x7A)"

definition isLineTerminator :: "code_unit \<Rightarrow> bool" where
  "isLineTerminator c \<longleftrightarrow> c = 0x0A \<or> c = 0x0D \<or> c = 0x2028 \<or> c = 0x2029"

text \<open>
  One attempt to match at the head of \<open>s\<close> with \<open>\W+\<close> holding \<open>j\<close> units: the group
  then takes one unit that is no line terminator, or else the empty string at the end of
  input. When neither is possible the matcher backtracks, giving \<open>\W+\<close> one unit less,
  down to one unit. A match returns the captured group and the text after the match.
\<close>

fun matchGroupAfter :: "jsstring \<Rightarrow> nat \<Rightarrow> (jsstring \<times> jsstring) option" where
  "matchGroupAfter s 0 = None"
| "matchGroupAfter s (Suc j) =
     (case drop (Suc j) s of
        [] \<Rightarrow> Some ([], [])
      | c # rest \<Rightarrow> if \<not> isLineTerminator c then Some ([c], rest) else matchGroupAfter s j)"

text \<open>\<open>\W+\<close> is greedy: the first attempt gives it the whole run of non-word units.\<close>

definition matchNonWordRun :: "jsstring \<Rightarrow> (jsstring \<times> jsstring) option" where
  "matchNonWordRun s = matchGroupAfter s (length (takeWhile (\<lambda>c. \<not> isWordChar c) s))"

lemma matchGroupAfter_shorter:
  "matchGroupAfter s j = Some (chr, rest) \<Longrightarrow> s \<noteq> [] \<Longrightarrow> length rest < length s"
proof (induction j)
  case 0
  then show ?case by simp
next
  case (Suc j)
  show ?case
  proof (cases "drop (Suc j) s")
    case Nil
    with Suc.prems show ?thesis by simp
  next
    case (Cons c cs)
    then have len: "length cs < length s"
      by (metis drop_eq_Nil2 impossible_Cons leI length_drop less_imp_diff_less less_le_not_le
          list.distinct(1) not_less_eq)
    show ?thesis
    proof (cases "isLineTerminator c")
      case True
      with Suc Cons show ?thesis by simp
    next
      case False
      with Suc.prems Cons len show ?thesis by simp
    qed
  qed
qed

text \<open>
  \<open>str.replace(re, fn)\<close> with the global flag: scan from the left; where the expression
  matches, emit what \<open>fn\<close> makes of the captured group and go on after the match; where it
  does not, keep the unit and go on one unit further. (A match holds at least one unit,
  so no empty match occurs.)
\<close>

function replaceNonWordRuns :: "(jsstring \<Rightarrow> jsstring) \<Rightarrow> jsstring \<Rightarrow> jsstring" where
  "replaceNonWordRuns fn [] = []"
| "replaceNonWordRuns fn (c # cs) =
     (case matchNonWordRun (c # cs) of
        Some (chr, rest) \<Rightarrow> fn chr @ replaceNonWordRuns fn rest
      | None \<Rightarrow> c # replaceNonWordRuns fn cs)"
  by pat_completeness auto
termination
proof (relation "measure (\<lambda>(fn, s). length s)")
  show "wf (measure (\<lambda>(fn, s). length s))" by simp
next
  fix fn :: "jsstring \<Rightarrow> jsstring" and c cs x2 x y
  assume "matchNonWordRun (c # cs) = Some x2" "(x, y) = x2"
  then have "matchGroupAfter (c # cs) (length (takeWhile (\<lambda>c. \<not> isWordChar c) (c # cs))) = Some (x, y)"
    by (simp add: matchNonWordRun_def)
  then have "length y < length (c # cs)"
    by (rule matchGroupAfter_shorter) simp
  then show "((fn, y), (fn, c # cs)) \<in> measure (\<lambda>(fn, s). length s)"
    by simp
next
  fix fn :: "jsstring \<Rightarrow> jsstring" and c cs
  show "((fn, cs), (fn, c # cs)) \<in> measure (\<lambda>(fn, s). length s)"
    by simp
qed

text \<open>
  \<open>String.prototype.toUpperCase\<close>, as far as the resolver needs it: the group captured
  above is empty or one word character (lemma \<open>matchNonWordRun_group\<close> below), and on
  \<open>[A-Za-z0-9_]\<close> upper-casing moves \<open>a\<close>..\<open>z\<close> to \<open>A\<close>..\<open>Z\<close> and keeps the rest.
\<close>

definition upperUnit :: "code_unit \<Rightarrow> code_unit" where
  "upperUnit c = (if 0x61 \<le> c \<and> c \<le> 0x7A then c - 0x20 else c)"

definition toUpperCase :: "jsstring \<Rightarrow> jsstring" where
  "toUpperCase s = map upperUnit s"

text \<open>
  \<^verbatim>\<open>
  const id = getStringFromAttribute('id', attributes);
  if (id) { return id; }
  let generated = name.replace(/\W+(.|$)/g, (_, chr) => chr.toUpperCase());
  if (storiesIds.has(generated)) {
    logger.warn(`Story name conflict with exports - Please add an explicit id for story ${name}`);
    generated += hashCode(name);
  }
  return generated;
  \<close>
  The result is the id together with the warnings logged.
\<close>

definition generatedId :: "jsstring \<Rightarrow> jsstring" where
  "generatedId name = replaceNonWordRuns (\<lambda>chr. toUpperCase chr) name"

definition conflictWarning :: "jsstring \<Rightarrow> jsstring" where
  "conflictWarning name =
     js ''Story name conflict with exports - Please add an explicit id for story '' @ name"

definition getStoryId ::
  "attribute list \<Rightarrow> jsstring \<Rightarrow> jsstring set \<Rightarrow> error + (jsstring \<times> jsstring list)" where
  "getStoryId attrs name storiesIds =
     (case getStringFromAttribute (js ''id'') attrs of
        Inl e \<Rightarrow> Inl e
      | Inr ident \<Rightarrow>
          if ident \<noteq> None \<and> ident \<noteq> Some [] then Inr (the ident, [])
          else
            let generated = generatedId name in
            if generated \<in> storiesIds
            then Inr (generated @ hashCode name, [conflictWarning name])
            else Inr (generated, []))"

text \<open>
  The derived id as the specification words it: every run of non-word characters is
  removed, and the one character right after a run is upper-cased. The flag says whether
  the character before was a non-word character.
\<close>

fun camelCaseFold :: "bool \<Rightarrow> jsstring \<Rightarrow> jsstring" where
  "camelCaseFold afterRun [] = []"
| "camelCaseFold afterRun (c # cs) =
     (if isWordChar c
      then (if afterRun then upperUnit c else c) # camelCaseFold False cs
      else camelCaseFold True cs)"

section \<open>Full extraction: the fragment walker\<close>

text \<open>
  \<^verbatim>\<open>
  export function getChildrenRawSource({ node, rawSource }) {
    const { fragment } = node;
    const { nodes } = fragment;
    if (nodes.length === 0) { return; }
    const snippetBlockChildren = nodes.find(
      (c) => c.type === 'SnippetBlock' && c.expression.name === 'children');
    if (snippetBlockChildren) {
      const { body } = snippetBlockChildren;
      const { nodes } = body;
      const { start } = nodes[0];
      const { end } = nodes[nodes.length - 1];
      return dedent`${rawSource.slice(start, end)}`;
    }
    const { start } = nodes[0];
    const { end } = nodes[nodes.length - 1];
    return dedent`${rawSource.slice(start, end)}`;
  }
  \<close>
  The first argument of the model is the library function \<open>dedent\<close>, which is not part
  of the program; the second is \<open>node.fragment.nodes\<close>. Destructuring \<open>nodes[0]\<close> of an
  empty snippet body reads a property of \<open>undefined\<close>.
\<close>

definition isChildrenSnippet :: "node \<Rightarrow> bool" where
  "isChildrenSnippet c =
     (case c of SnippetBlock n b s e \<Rightarrow> n = js ''children'' | _ \<Rightarrow> False)"

definition spanOf :: "node list \<Rightarrow> error + (nat \<times> nat)" where
  "spanOf nodes = (case nodes of [] \<Rightarrow> Inl TypeError
                   | n # ns \<Rightarrow> Inr (node_start n, node_end (last (n # ns))))"

definition getChildrenRawSource ::
  "(jsstring \<Rightarrow> jsstring) \<Rightarrow> node list \<Rightarrow> jsstring \<Rightarrow> error + jsstring option" where
  "getChildrenRawSource dedent nodes rawSource =
     (if length nodes = 0 then Inr None
      else
        case find isChildrenSnippet nodes of
          Some snippetBlockChildren \<Rightarrow>
            (case spanOf (body snippetBlockChildren) of
               Inl e \<Rightarrow> Inl e
             | Inr (start, end') \<Rightarrow> Inr (Some (dedent (slice rawSource start end'))))
        | None \<Rightarrow>
            (case spanOf nodes of
               Inl e \<Rightarrow> Inl e
             | Inr (start, end') \<Rightarrow> Inr (Some (dedent (slice rawSource start end')))))"

record StoryMeta =
  meta_id :: jsstring
  meta_name :: jsstring
  description :: "jsstring option"
  meta_source :: "source_value option"
  rawSource :: "jsstring option"

text \<open>
  \<open>state.stories\<close> is a plain object, created as \<open>{}\<close>. Its keys (what \<open>Object.keys\<close>
  lists) are its own properties. The key \<open>__proto__\<close> is not stored as a property: it is
  the accessor every plain object inherits, and assigning an object to it replaces the
  prototype of the receiver and adds no key. Any other key becomes an own property (the
  prototypes met here hold only writable data properties besides, which do not stop an
  assignment). \<open>prototype = None\<close> is the prototype the object was created with.
\<close>

record story_object =
  ownProperties :: "jsstring \<rightharpoonup> StoryMeta"
  prototype :: "StoryMeta option"

text \<open>\<open>obj[key] = value\<close>, for a value that is an object.\<close>

definition assignProperty :: "story_object \<Rightarrow> jsstring \<Rightarrow> StoryMeta \<Rightarrow> story_object" where
  "assignProperty obj key v =
     (if key = js ''__proto__''
      then obj \<lparr> prototype := Some v \<rparr>
      else obj \<lparr> ownProperties := (ownProperties obj)(key \<mapsto> v) \<rparr>)"

text \<open>\<open>Object.keys(obj)\<close>, as a set.\<close>

definition keysOf :: "story_object \<Rightarrow> jsstring set" where
  "keysOf obj = dom (ownProperties obj)"

text \<open>
  Where an assignment \<open>obj[key] = value\<close> has left its value: in the prototype for
  \<open>__proto__\<close>, among the own properties for any other key.
\<close>

definition recordedStory :: "story_object \<Rightarrow> jsstring \<Rightarrow> StoryMeta option" where
  "recordedStory obj key = (if key = js ''__proto__'' then prototype obj else ownProperties obj key)"

text \<open>
  What the walk shares between its handlers: the accumulator \<open>state.stories\<close>, the closure
  variables \<open>latestComment\<close>, \<open>storiesIds\<close> and \<open>storiesNames\<close>, and the warnings sent
  to the logger.
\<close>

record walk_state =
  stories :: story_object
  latestComment :: "node option"
  storiesIds :: "jsstring set"
  storiesNames :: "jsstring set"
  warnings :: "jsstring list"

text \<open>Sequencing of steps that may throw.\<close>

definition andThen :: "'e + 'a \<Rightarrow> ('a \<Rightarrow> 'e + 'b) \<Rightarrow> 'e + 'b" where
  "andThen m f = (case m of Inl e \<Rightarrow> Inl e | Inr x \<Rightarrow> f x)"

text \<open>
  \<^verbatim>\<open>
  const description =
    latestComment && latestComment.end === node.start - 1
      ? dedent`${latestComment?.data}`
      : undefined;
  \<close>
  Offsets are numbers: \<open>node.start - 1\<close> is \<open>-1\<close> at offset 0, so the comparison is
  made in \<open>int\<close>.
\<close>

definition descriptionFor :: "(jsstring \<Rightarrow> jsstring) \<Rightarrow> node option \<Rightarrow> nat \<Rightarrow> jsstring option" where
  "descriptionFor dedent latest markerStart =
     (case latest of
        None \<Rightarrow> None
      | Some c \<Rightarrow> if int (node_end c) = int markerStart - 1 then Some (dedent (data c)) else None)"

text \<open>
  \<^verbatim>\<open>
  Component(node, { state }) {
    if (node.name === nodes.storyIdentifier.name) {
      const { attributes } = node;
      const name = getStoryName({ attributes, storiesNames });
      const sourceAttribute = getSourceAttribute(attributes);
      const childrenRawSource = getChildrenRawSource({ node, rawSource: source });
      const id = getStoryId({ attributes, name, storiesIds: storiesIds });
      const description = ...;
      const meta: StoryMeta = { id, name, description, source: sourceAttribute,
                                rawSource: childrenRawSource };
      state.stories[name] = meta;
    }
    latestComment = undefined;
  }
  \<close>
  The handler is given no \<open>next\<close> and calls none.
\<close>

definition Component_visitor ::
  "(jsstring \<Rightarrow> jsstring) \<Rightarrow> jsstring \<Rightarrow> jsstring \<Rightarrow> node \<Rightarrow> walk_state \<Rightarrow> error + walk_state" where
  "Component_visitor dedent source storyIdentifier node st =
     (if node_name node = storyIdentifier then
        andThen (getStoryName (attributes node) (storiesNames st)) (\<lambda>name.
        andThen (getSourceAttribute (attributes node)) (\<lambda>sourceAttribute.
        andThen (getChildrenRawSource dedent (fragment node) source) (\<lambda>childrenRawSource.
        andThen (getStoryId (attributes node) name (storiesIds st)) (\<lambda>(ident, logged).
          let meta = \<lparr> meta_id = ident, meta_name = name,
                       description = descriptionFor dedent (latestComment st) (node_start node),
                       meta_source = sourceAttribute, rawSource = childrenRawSource \<rparr>
          in Inr (st \<lparr> stories := assignProperty (stories st) name meta,
                       warnings := warnings st @ logged,
                       latestComment := None \<rparr>)))))
      else Inr (st \<lparr> latestComment := None \<rparr>))"

text \<open>
  \<^verbatim>\<open>
  Comment(node, { next }) { latestComment = node; next(); }
  \<close>
  A comment has no child nodes, so \<open>next()\<close> visits nothing.
\<close>

definition Comment_visitor :: "node \<Rightarrow> walk_state \<Rightarrow> walk_state" where
  "Comment_visitor node st = st \<lparr> latestComment := Some node \<rparr>"

text \<open>
  The walk: a node of a kind with a handler goes to that handler; any other node goes to
  the default pass-through, which visits its child nodes in order. An exception ends the
  walk.
\<close>

fun visit :: "(jsstring \<Rightarrow> jsstring) \<Rightarrow> jsstring \<Rightarrow> jsstring \<Rightarrow> node \<Rightarrow> walk_state \<Rightarrow> error + walk_state"
  and visit_all ::
    "(jsstring \<Rightarrow> jsstring) \<Rightarrow> jsstring \<Rightarrow> jsstring \<Rightarrow> node list \<Rightarrow> walk_state \<Rightarrow> error + walk_state"
where
  "visit dedent source ident (Comment d s e) st = Inr (Comment_visitor (Comment d s e) st)"
| "visit dedent source ident (Component n a f s e) st =
     Component_visitor dedent source ident (Component n a f s e) st"
| "visit dedent source ident (SnippetBlock n b s e) st = visit_all dedent source ident b st"
| "visit dedent source ident (OtherNode k s e) st = visit_all dedent source ident k st"
| "visit_all dedent source ident [] st = Inr st"
| "visit_all dedent source ident (n # ns) st =
     (case visit dedent source ident n st of
        Inl e \<Rightarrow> Inl e
      | Inr st' \<Rightarrow> visit_all dedent source ident ns st')"

text \<open>
  \<^verbatim>\<open>
  const state: FragmentMeta = { stories: {} };
  let latestComment: Comment | undefined;
  const storiesIds = new Set<string>(Object.keys(state.stories));
  const storiesNames = new Set<string>();
  ...
  walk(fragment, state, visitors);
  return state;
  \<close>
  \<open>walk\<close> starts at the fragment, a node without a handler, whose children are
  \<open>fragment.nodes\<close>.
\<close>

definition emptyObject :: story_object where
  "emptyObject = \<lparr> ownProperties = Map.empty, prototype = None \<rparr>"

definition initial_state :: walk_state where
  "initial_state = \<lparr> stories = emptyObject, latestComment = None,
                      storiesIds = keysOf emptyObject,
                      storiesNames = {}, warnings = [] \<rparr>"

definition walk :: "(jsstring \<Rightarrow> jsstring) \<Rightarrow> node list \<Rightarrow> jsstring \<Rightarrow> jsstring \<Rightarrow> error + walk_state" where
  "walk dedent nodes source storyIdentifier = visit_all dedent source storyIdentifier nodes initial_state"

definition walkOnFragment ::
  "(jsstring \<Rightarrow> jsstring) \<Rightarrow> node list \<Rightarrow> jsstring \<Rightarrow> jsstring \<Rightarrow> error + story_object" where
  "walkOnFragment dedent nodes source storyIdentifier =
     (case walk dedent nodes source storyIdentifier of
        Inl e \<Rightarrow> Inl e
      | Inr st \<Rightarrow> Inr (stories st))"

text \<open>
  To state what lies between a comment and a marker: a node is inert when neither it nor
  anything the pass-through reaches inside it is a comment or a component (text,
  elements and blocks holding only such nodes).
\<close>

fun inert :: "node \<Rightarrow> bool" and inert_all :: "node list \<Rightarrow> bool" where
  "inert (Comment d s e) = False"
| "inert (Component n a f s e) = False"
| "inert (SnippetBlock n b s e) = inert_all b"
| "inert (OtherNode k s e) = inert_all k"
| "inert_all [] = True"
| "inert_all (n # ns) = (inert n \<and> inert_all ns)"

text \<open>
  To state which markers a walk can reach: the components named as the marker that lie
  beneath no component, collected through snippet blocks and all other nodes but never
  from inside a component's fragment.
\<close>

fun markersOutsideComponents :: "jsstring \<Rightarrow> node \<Rightarrow> node list"
  and markersOutsideComponents_all :: "jsstring \<Rightarrow> node list \<Rightarrow> node list"
where
  "markersOutsideComponents ident (Comment d s e) = []"
| "markersOutsideComponents ident (Component n a f s e) =
     (if n = ident then [Component n a f s e] else [])"
| "markersOutsideComponents ident (SnippetBlock n b s e) = markersOutsideComponents_all ident b"
| "markersOutsideComponents ident (OtherNode k s e) = markersOutsideComponents_all ident k"
| "markersOutsideComponents_all ident [] = []"
| "markersOutsideComponents_all ident (n # ns) =
     markersOutsideComponents ident n @ markersOutsideComponents_all ident ns"

text \<open>The names \<open>getStoryName\<close> reads from a list of markers.\<close>

definition recognizedNames :: "jsstring set \<Rightarrow> node list \<Rightarrow> jsstring set" where
  "recognizedNames names markers =
     {name. \<exists>m \<in> set markers. getStoryName (attributes m) names = Inr name}"

text \<open>
  For the examples: the marker \<open><Story name="..."> ... </Story>\<close> with the given
  offsets and child nodes.
\<close>

definition storyTag :: "jsstring \<Rightarrow> nat \<Rightarrow> nat \<Rightarrow> node list \<Rightarrow> node" where
  "storyTag name s e kids =
     Component (js ''Story'') [Attribute (js ''name'') (ValueParts [Text name])] kids s e"

definition storyTagWithId :: "jsstring \<Rightarrow> jsstring \<Rightarrow> nat \<Rightarrow> nat \<Rightarrow> node" where
  "storyTagWithId name ident s e =
     Component (js ''Story'')
       [Attribute (js ''name'') (ValueParts [Text name]), Attribute (js ''id'') (ValueParts [Text ident])]
       [] s e"

text \<open>
  A document with a marker inside a marker and a marker inside another component:
  \<open><Story name="Outer"><Story name="Inner"/></Story><Wrapper><Story name="Hidden"/></Wrapper>\<close>.
\<close>

definition nestedDoc :: "node list" where
  "nestedDoc =
     [storyTag (js ''Outer'') 0 9 [storyTag (js ''Inner'') 2 5 []],
      Component (js ''Wrapper'') [] [storyTag (js ''Hidden'') 12 15 []] 10 19]"

section \<open>Raw source of a story's children (the locator used with the compiled output)\<close>

text \<open>
  What \<open>extractSvelteASTNodes\<close> hands over, as far as the recovery reads it: the snippet
  blocks at the root of the fragment, the arguments of the \<open>setTemplate(...)\<close> call if
  there is one, and the value of the \<open>component\<close> property of the meta object if there is
  one.
\<close>

record SvelteASTNodes =
  snippetBlocks :: "node list"
  setTemplateCall :: "expression list option"
  metaComponent :: "expression option"

text \<open>A template literal prints a missing \<open>filename\<close> as \<open>undefined\<close>.\<close>

definition showFilename :: "jsstring option \<Rightarrow> jsstring" where
  "showFilename filename = (case filename of None \<Rightarrow> js ''undefined'' | Some f \<Rightarrow> f)"

text \<open>
  Modelled from the spec: \<open>extractStoryAttributesNodes\<close> is not among the sources. The
  recovery asks it for the \<open>children\<close> attribute of the marker; the model answers with the
  first attribute of that name, as \<open>lookupAttribute\<close> does.
\<close>

definition extractStoryAttributesNodes_children :: "node \<Rightarrow> attribute option" where
  "extractStoryAttributesNodes_children component = lookupAttribute (js ''children'') (attributes component)"

text \<open>
  Modelled from the spec: \<open>extractStoryChildrenSnippetBlock\<close> is not among the sources. It
  finds the inline snippet block named \<open>children\<close> among the marker's child nodes.
\<close>

definition extractStoryChildrenSnippetBlock :: "node \<Rightarrow> node option" where
  "extractStoryChildrenSnippetBlock component = find isChildrenSnippet (fragment component)"

text \<open>
  \<^verbatim>\<open>
  function findTemplateSnippetBlock(name, svelteASTNodes) {
    const { snippetBlocks } = svelteASTNodes;
    return snippetBlocks.find((snippetBlock) => name === snippetBlock.expression.name);
  }
  \<close>
\<close>

definition findTemplateSnippetBlock :: "jsstring \<Rightarrow> SvelteASTNodes \<Rightarrow> node option" where
  "findTemplateSnippetBlock name svelteASTNodes =
     find (\<lambda>snippetBlock. name = snippet_name snippetBlock) (snippetBlocks svelteASTNodes)"

text \<open>
  \<^verbatim>\<open>
  function findSetTemplateSnippetBlock(svelteASTNodes) {
    const { setTemplateCall } = svelteASTNodes;
    if (!setTemplateCall) { return; }
    if (setTemplateCall.arguments[0].type !== 'Identifier') {
      throw new Error(`Invalid schema - ... Stories file: ${filename}`);
    }
    return findTemplateSnippetBlock(setTemplateCall.arguments[0].name, svelteASTNodes);
  }
  \<close>
  \<open>filename\<close> is not declared in this function, so building the message fails with a
  \<open>ReferenceError\<close>; a call without arguments reads \<open>type\<close> from \<open>undefined\<close>.
\<close>

definition findSetTemplateSnippetBlock :: "SvelteASTNodes \<Rightarrow> error + node option" where
  "findSetTemplateSnippetBlock svelteASTNodes =
     (case setTemplateCall svelteASTNodes of
        None \<Rightarrow> Inr None
      | Some [] \<Rightarrow> Inl TypeError
      | Some (Identifier name # _) \<Rightarrow> Inr (findTemplateSnippetBlock name svelteASTNodes)
      | Some (_ # _) \<Rightarrow> Inl ReferenceError)"

text \<open>
  \<^verbatim>\<open>
  function findChildrenPropSnippetBlock(component, options) {
    const { svelteASTNodes, filename } = options;
    const { children } = extractStoryAttributesNodes({ component, attributes: ['children'] });
    if (!children) { return; }
    const { value } = children;
    if (value === true || value[0].type === 'Text' || value[0].expression.type !== 'Identifier') {
      throw new Error(`Invalid schema. Expected '<Story />'s attribute 'children' to be an
                       expression with identifier to snippet block. Stories file: ${filename}`);
    }
    return findTemplateSnippetBlock(value[0].expression.name, svelteASTNodes);
  }
  \<close>
  Only \<open>value[0]\<close> is looked at; an empty array reads \<open>type\<close> from \<open>undefined\<close>.
\<close>

definition invalidChildrenMessage :: "jsstring option \<Rightarrow> jsstring" where
  "invalidChildrenMessage filename =
     js ''Invalid schema. Expected '' @ apostrophe @ js ''<Story />'' @ apostrophe
     @ js ''s attribute '' @ apostrophe @ js ''children'' @ apostrophe
     @ js '' to be an expression with identifier to snippet block. Stories file: ''
     @ showFilename filename"

definition findChildrenPropSnippetBlock ::
  "node \<Rightarrow> SvelteASTNodes \<Rightarrow> jsstring option \<Rightarrow> error + node option" where
  "findChildrenPropSnippetBlock component svelteASTNodes filename =
     (case extractStoryAttributesNodes_children component of
        None \<Rightarrow> Inr None
      | Some childrenAttribute \<Rightarrow>
          (case attr_value childrenAttribute of
             ValueTrue \<Rightarrow> Inl (Error (invalidChildrenMessage filename))
           | ValueParts [] \<Rightarrow> Inl TypeError
           | ValueParts (Text d # _) \<Rightarrow> Inl (Error (invalidChildrenMessage filename))
           | ValueParts (ExpressionTag (Identifier name) # _) \<Rightarrow>
               Inr (findTemplateSnippetBlock name svelteASTNodes)
           | ValueParts (ExpressionTag _ # _) \<Rightarrow> Inl (Error (invalidChildrenMessage filename))))"

text \<open>
  \<^verbatim>\<open>
  function sanitizeCodeSlice(rawCode) { return rawCode.replace(/(\n)/g, '').trim(); }
  \<close>
  \<open>trim\<close> removes white space and line terminators from both ends.
\<close>

definition isWhiteSpace :: "code_unit \<Rightarrow> bool" where
  "isWhiteSpace c \<longleftrightarrow>
     c \<in> {0x09, 0x0A, 0x0B, 0x0C, 0x0D, 0x20, 0xA0, 0x1680, 0x2028, 0x2029, 0x202F, 0x205F,
          0x3000, 0xFEFF} \<or> (0x2000 \<le> c \<and> c \<le> 0x200A)"

definition trim :: "jsstring \<Rightarrow> jsstring" where
  "trim s = rev (dropWhile isWhiteSpace (rev (dropWhile isWhiteSpace s)))"

definition sanitizeCodeSlice :: "jsstring \<Rightarrow> jsstring" where
  "sanitizeCodeSlice rawCode = trim (filter (\<lambda>c. c \<noteq> 0x0A) rawCode)"

text \<open>
  \<^verbatim>\<open>
  function getSnippetBlockBodyRawCode(originalCode, node) {
    const { body } = node;
    const { nodes } = body;
    const firstNode = nodes[0];
    const lastNode = nodes[nodes.length - 1];
    const rawCode = originalCode.slice(firstNode.start, lastNode.end);
    return sanitizeCodeSlice(rawCode);
  }
  \<close>
\<close>

definition rawCodeOf :: "jsstring \<Rightarrow> node list \<Rightarrow> error + jsstring" where
  "rawCodeOf originalCode nodes =
     (case spanOf nodes of
        Inl e \<Rightarrow> Inl e
      | Inr (start, end') \<Rightarrow> Inr (sanitizeCodeSlice (slice originalCode start end')))"

definition getSnippetBlockBodyRawCode :: "jsstring \<Rightarrow> node \<Rightarrow> error + jsstring" where
  "getSnippetBlockBodyRawCode originalCode node = rawCodeOf originalCode (body node)"

text \<open>
  \<^verbatim>\<open>
  function getDefineMetaComponentName(svelteASTNodes) {
    const { component } = extractMetaPropertiesNodes({ nodes: svelteASTNodes, properties: ['component'] });
    if (!component) { return '!unspecified'; }
    const { value } = component;
    if (value.type !== 'Identifier') { throw new Error(`Invalid schema`); }
    return value.name;
  }
  \<close>
  \<open>extractMetaPropertiesNodes\<close> is not among the sources; its answer for \<open>component\<close> is
  the field \<open>metaComponent\<close>.
\<close>

definition getDefineMetaComponentName :: "SvelteASTNodes \<Rightarrow> error + jsstring" where
  "getDefineMetaComponentName svelteASTNodes =
     (case metaComponent svelteASTNodes of
        None \<Rightarrow> Inr (js ''!unspecified'')
      | Some (Identifier name) \<Rightarrow> Inr name
      | Some _ \<Rightarrow> Inl (Error (js ''Invalid schema'')))"

text \<open>
  \<^verbatim>\<open>
  export function getStoryChildrenRawSource(params) {
    const { component, svelteASTNodes, originalCode, filename } = params;
    if (component.fragment.nodes.length === 0) {
      const storyAttributeChildrenSnippetBlock =
        findChildrenPropSnippetBlock(component, { svelteASTNodes, filename });
      if (storyAttributeChildrenSnippetBlock) {
        return getSnippetBlockBodyRawCode(originalCode, storyAttributeChildrenSnippetBlock);
      }
      const setTemplateSnippetBlock = findSetTemplateSnippetBlock(svelteASTNodes);
      if (setTemplateSnippetBlock) {
        return getSnippetBlockBodyRawCode(originalCode, setTemplateSnippetBlock);
      }
      return `<${getDefineMetaComponentName(svelteASTNodes)} {...args} />`;
    }
    const storyChildrenSnippetBlock = extractStoryChildrenSnippetBlock(component);
    if (storyChildrenSnippetBlock) {
      return getSnippetBlockBodyRawCode(originalCode, storyChildrenSnippetBlock);
    }
    const { fragment } = component;
    const { nodes } = fragment;
    const firstNode = nodes[0];
    const lastNode = nodes[nodes.length - 1];
    const rawCode = originalCode.slice(firstNode.start, lastNode.end);
    return sanitizeCodeSlice(rawCode);
  }
  \<close>
\<close>

definition getStoryChildrenRawSource ::
  "node \<Rightarrow> SvelteASTNodes \<Rightarrow> jsstring \<Rightarrow> jsstring option \<Rightarrow> error + jsstring" where
  "getStoryChildrenRawSource component svelteASTNodes originalCode filename =
     (if length (fragment component) = 0 then
        (case findChildrenPropSnippetBlock component svelteASTNodes filename of
           Inl e \<Rightarrow> Inl e
         | Inr (Some storyAttributeChildrenSnippetBlock) \<Rightarrow>
             getSnippetBlockBodyRawCode originalCode storyAttributeChildrenSnippetBlock
         | Inr None \<Rightarrow>
             (case findSetTemplateSnippetBlock svelteASTNodes of
                Inl e \<Rightarrow> Inl e
              | Inr (Some setTemplateSnippetBlock) \<Rightarrow>
                  getSnippetBlockBodyRawCode originalCode setTemplateSnippetBlock
              | Inr None \<Rightarrow>
                  (case getDefineMetaComponentName svelteASTNodes of
                     Inl e \<Rightarrow> Inl e
                   | Inr name \<Rightarrow> Inr (js ''<'' @ name @ js '' {...args} />''))))
      else
        (case extractStoryChildrenSnippetBlock component of
           Some storyChildrenSnippetBlock \<Rightarrow>
             getSnippetBlockBodyRawCode originalCode storyChildrenSnippetBlock
         | None \<Rightarrow> rawCodeOf originalCode (fragment component)))"

section \<open>The compiled-output node locator\<close>

text \<open>
  The compiled program, as far as the locator's handlers read it. A function declaration
  is represented by its \<open>id\<close> (absent for an anonymous default export): its handler reads
  nothing else and does not continue into the body. A variable declaration has at least
  one declarator. Every node of a kind without a handler is \<open>OtherProgramNode\<close>, holding
  the nodes the default pass-through visits, in order.
\<close>

datatype specifier =
    is_ImportSpecifier: ImportSpecifier (imported: jsstring) (local_name: jsstring)
  | ImportDefaultSpecifier jsstring
  | ImportNamespaceSpecifier jsstring

datatype property = Property expression expression | RestElement

datatype pattern = ObjectPattern "property list" | OtherPattern

datatype declarator = VariableDeclarator (declarator_id: pattern) (declarator_init: "expression option")

type_synonym function_declaration = "jsstring option"

datatype default_declaration =
    DeclaredFunction function_declaration
  | OtherDeclaration

datatype program_node =
    ImportDeclaration jsstring "specifier list"
  | VariableDeclaration declarator "declarator list"
  | ExportDefaultDeclaration default_declaration
  | FunctionDeclaration function_declaration
  | OtherProgramNode "program_node list"

text \<open>\<open>Partial<CompiledASTNodes>\<close>: every field starts out missing.\<close>

record compiled_state =
  defineMetaImport :: "specifier option"
  defineMetaVariableDeclaration :: "program_node option"
  exportDefault :: "program_node option"
  storyIdentifier :: "jsstring option"
  storiesFunctionDeclaration :: "function_declaration option"

record CompiledASTNodes =
  found_defineMetaImport :: specifier
  found_defineMetaVariableDeclaration :: program_node
  found_exportDefault :: program_node
  found_storyIdentifier :: jsstring
  found_storiesFunctionDeclaration :: function_declaration

definition endsWith :: "jsstring \<Rightarrow> jsstring \<Rightarrow> bool" where
  "endsWith s searchString \<longleftrightarrow>
     length searchString \<le> length s \<and> drop (length s - length searchString) s = searchString"

text \<open>
  \<^verbatim>\<open>
  const isStoriesComponentFn = (fnDeclaration) => fnDeclaration.id?.name.endsWith('_stories');
  \<close>
\<close>

definition isStoriesComponentFn :: "function_declaration \<Rightarrow> bool" where
  "isStoriesComponentFn fnDeclaration =
     (case fnDeclaration of None \<Rightarrow> False | Some name \<Rightarrow> endsWith name (js ''_stories''))"

text \<open>
  \<^verbatim>\<open>
  ImportSpecifier(node, {}) {
    if (node.imported.name === AST_NODES_NAMES.defineMeta) { state.defineMetaImport = node; }
  }
  \<close>
\<close>

definition ImportSpecifier_visitor :: "specifier \<Rightarrow> compiled_state \<Rightarrow> compiled_state" where
  "ImportSpecifier_visitor node st =
     (if imported node = js ''defineMeta'' then st \<lparr> defineMetaImport := Some node \<rparr> else st)"

text \<open>
  \<^verbatim>\<open>
  ImportDeclaration(node, { state, visit }) {
    const { source, specifiers } = node;
    if (source.value === pkg.name) {
      for (const specifier of specifiers) {
        if (specifier.type !== 'ImportSpecifier') {
          throw new Error(`Don't use the default/namespace import from "${pkg.name}" in the
                           stories file: ${filename}`);
        }
        visit(specifier, state);
      }
    }
  }
  \<close>
  \<open>pkg.name\<close> comes from the package manifest, which is not among the sources: the name
  of the package is the first argument of the model.
\<close>

definition defaultImportMessage :: "jsstring \<Rightarrow> jsstring option \<Rightarrow> jsstring" where
  "defaultImportMessage pkgName filename =
     js ''Don'' @ apostrophe @ js ''t use the default/namespace import from '' @ quote @ pkgName
     @ quote @ js '' in the stories file: '' @ showFilename filename"

fun visitSpecifiers ::
  "jsstring \<Rightarrow> jsstring option \<Rightarrow> specifier list \<Rightarrow> compiled_state \<Rightarrow> error + compiled_state" where
  "visitSpecifiers pkgName filename [] st = Inr st"
| "visitSpecifiers pkgName filename (specifier # rest) st =
     (if \<not> is_ImportSpecifier specifier
      then Inl (Error (defaultImportMessage pkgName filename))
      else visitSpecifiers pkgName filename rest (ImportSpecifier_visitor specifier st))"

definition ImportDeclaration_visitor ::
  "jsstring \<Rightarrow> jsstring option \<Rightarrow> jsstring \<Rightarrow> specifier list \<Rightarrow> compiled_state
   \<Rightarrow> error + compiled_state" where
  "ImportDeclaration_visitor pkgName filename source specifiers st =
     (if source = pkgName then visitSpecifiers pkgName filename specifiers st else Inr st)"

text \<open>
  \<^verbatim>\<open>
  VariableDeclaration(node, { state }) {
    const { declarations } = node;
    const declaration = declarations[0];
    const { id, init } = declaration;
    if (id.type === 'ObjectPattern' && init?.type === 'CallExpression' &&
        init.callee.type === 'Identifier' &&
        init.callee.name === state.defineMetaImport?.local.name) {
      state.defineMetaVariableDeclaration = node;
      for (const property of id.properties) {
        if (property.type === 'Property' && property.key.type === 'Identifier' &&
            property.key.name === AST_NODES_NAMES.Story && property.value.type === 'Identifier') {
          state.storyIdentifier = property.value;
        }
      }
    }
  }
  \<close>
\<close>

fun storyProperties :: "property list \<Rightarrow> compiled_state \<Rightarrow> compiled_state" where
  "storyProperties [] st = st"
| "storyProperties (Property (Identifier k) (Identifier v) # rest) st =
     storyProperties rest (if k = js ''Story'' then st \<lparr> storyIdentifier := Some v \<rparr> else st)"
| "storyProperties (_ # rest) st = storyProperties rest st"

definition VariableDeclaration_visitor :: "program_node \<Rightarrow> declarator \<Rightarrow> compiled_state \<Rightarrow> compiled_state" where
  "VariableDeclaration_visitor node declaration st =
     (case (declarator_id declaration, declarator_init declaration) of
        (ObjectPattern properties, Some (CallExpression (Identifier callee) args)) \<Rightarrow>
          if Some callee = map_option local_name (defineMetaImport st)
          then storyProperties properties (st \<lparr> defineMetaVariableDeclaration := Some node \<rparr>)
          else st
      | _ \<Rightarrow> st)"

text \<open>
  \<^verbatim>\<open>
  ExportDefaultDeclaration(node, { state }) {
    state.exportDefault = node;
    if (process.env.NODE_ENV === 'production' &&
        node.declaration.type === 'FunctionDeclaration' &&
        isStoriesComponentFn(node.declaration)) {
      state.storiesFunctionDeclaration = node.declaration;
    }
  }
  FunctionDeclaration(node, { state }) {
    if (isStoriesComponentFn(node)) { state.storiesFunctionDeclaration = node; }
  }
  \<close>
  Whether \<open>NODE_ENV\<close> is \<open>production\<close> is an argument of the model.
\<close>

definition ExportDefaultDeclaration_visitor ::
  "bool \<Rightarrow> program_node \<Rightarrow> default_declaration \<Rightarrow> compiled_state \<Rightarrow> compiled_state" where
  "ExportDefaultDeclaration_visitor production node declaration st =
     (let st1 = st \<lparr> exportDefault := Some node \<rparr> in
      case declaration of
        DeclaredFunction fn \<Rightarrow>
          if production \<and> isStoriesComponentFn fn
          then st1 \<lparr> storiesFunctionDeclaration := Some fn \<rparr> else st1
      | OtherDeclaration \<Rightarrow> st1)"

definition FunctionDeclaration_visitor :: "function_declaration \<Rightarrow> compiled_state \<Rightarrow> compiled_state" where
  "FunctionDeclaration_visitor node st =
     (if isStoriesComponentFn node then st \<lparr> storiesFunctionDeclaration := Some node \<rparr> else st)"

text \<open>
  The walk over the compiled program: the four statement handlers call no continuation; a
  node of any other kind is passed through to its children.
\<close>

fun visitCompiled ::
    "jsstring \<Rightarrow> bool \<Rightarrow> jsstring option \<Rightarrow> program_node \<Rightarrow> compiled_state \<Rightarrow> error + compiled_state"
  and visitCompiled_all ::
    "jsstring \<Rightarrow> bool \<Rightarrow> jsstring option \<Rightarrow> program_node list \<Rightarrow> compiled_state
     \<Rightarrow> error + compiled_state"
where
  "visitCompiled pkgName production filename (ImportDeclaration source specifiers) st =
     ImportDeclaration_visitor pkgName filename source specifiers st"
| "visitCompiled pkgName production filename (VariableDeclaration d ds) st =
     Inr (VariableDeclaration_visitor (VariableDeclaration d ds) d st)"
| "visitCompiled pkgName production filename (ExportDefaultDeclaration d) st =
     Inr (ExportDefaultDeclaration_visitor production (ExportDefaultDeclaration d) d st)"
| "visitCompiled pkgName production filename (FunctionDeclaration fn) st =
     Inr (FunctionDeclaration_visitor fn st)"
| "visitCompiled pkgName production filename (OtherProgramNode kids) st =
     visitCompiled_all pkgName production filename kids st"
| "visitCompiled_all pkgName production filename [] st = Inr st"
| "visitCompiled_all pkgName production filename (n # ns) st =
     (case visitCompiled pkgName production filename n st of
        Inl e \<Rightarrow> Inl e
      | Inr st' \<Rightarrow> visitCompiled_all pkgName production filename ns st')"

text \<open>
  \<open>extractCompiledASTNodes\<close>: walk the program (a node without handler, whose children are
  the statements of its body), then fail on the first node that was not found.
\<close>

definition notFound :: "jsstring \<Rightarrow> jsstring option \<Rightarrow> error" where
  "notFound what filename = Error (js ''Could not find '' @ what @ showFilename filename)"

definition extractCompiledASTNodes ::
  "jsstring \<Rightarrow> bool \<Rightarrow> program_node list \<Rightarrow> jsstring option \<Rightarrow> error + CompiledASTNodes" where
  "extractCompiledASTNodes pkgName production ast filename =
     (case visitCompiled_all pkgName production filename ast
             \<lparr> defineMetaImport = None, defineMetaVariableDeclaration = None, exportDefault = None,
               storyIdentifier = None, storiesFunctionDeclaration = None \<rparr> of
        Inl e \<Rightarrow> Inl e
      | Inr st \<Rightarrow>
          (case defineMetaImport st of
             None \<Rightarrow>
               Inl (notFound (apostrophe @ js ''defineMeta'' @ apostrophe @ js '' imported from the ''
                      @ quote @ pkgName @ quote @ js '' in the compiled output of stories file: '')
                      filename)
           | Some imp \<Rightarrow>
          (case defineMetaVariableDeclaration st of
             None \<Rightarrow>
               Inl (notFound (apostrophe @ local_name imp @ js ''({ ... })'' @ apostrophe
                      @ js '' in the compiled output of the stories file: '') filename)
           | Some decl \<Rightarrow>
          (case exportDefault st of
             None \<Rightarrow>
               Inl (notFound (apostrophe @ js ''export default'' @ apostrophe
                      @ js '' in the compiled output of the stories file: '') filename)
           | Some ex \<Rightarrow>
          (case storyIdentifier st of
             None \<Rightarrow>
               Inl (notFound (apostrophe @ js ''Story'' @ apostrophe
                      @ js '' identifier in the compiled output of the stories file: '') filename)
           | Some story \<Rightarrow>
          (case storiesFunctionDeclaration st of
             None \<Rightarrow>
               Inl (notFound (js ''the stories component '' @ apostrophe @ js ''*.stories.svelte''
                      @ apostrophe @ js '' function in the compiled output of the stories file: '')
                      filename)
           | Some fn \<Rightarrow>
               Inr \<lparr> found_defineMetaImport = imp, found_defineMetaVariableDeclaration = decl,
                     found_exportDefault = ex, found_storyIdentifier = story,
                     found_storiesFunctionDeclaration = fn \<rparr>))))))"

section \<open>The indexer-mode walker\<close>

text \<open>
  The tree \<open>parseForIndexer\<close> walks starts at the root, of which the handlers read the
  module script (here the statements of its program, if the script is there) and the
  nodes of the fragment.
\<close>

record root =
  root_module :: "program_node list option"
  root_fragment :: "node list"

record story_entry =
  entry_exportName :: jsstring
  entry_name :: jsstring
  entry_tags :: "jsstring list"

text \<open>
  \<open>results\<close> (\<open>meta.title\<close>, \<open>meta.tags\<close>, \<open>stories\<close>) together with the variables the
  handlers close over.
\<close>

record indexer_state =
  meta_title :: "jsstring option"
  meta_tags :: "jsstring list option"
  indexed_stories :: "story_entry list"
  foundMeta :: bool
  defineMetaIdentifier :: jsstring
  componentStoryIdentifier :: jsstring
  componentMetaIdentifier :: jsstring

record Results =
  results_title :: "jsstring option"
  results_tags :: "jsstring list option"
  results_stories :: "story_entry list"

text \<open>
  Modelled from the spec: \<open>getStringValueFromAttribute\<close> is not among the sources. The rule
  is the one of the meta-object scan for \<open>title\<close>, a single literal string: one text chunk
  or one string literal gives the string, any other value is fatal.
\<close>

definition getStringValueFromAttribute :: "attribute \<Rightarrow> jsstring \<Rightarrow> error + jsstring" where
  "getStringValueFromAttribute node filename =
     (case attr_value node of
        ValueParts [Text d] \<Rightarrow> Inr d
      | ValueParts [ExpressionTag (Literal (StringLiteral v))] \<Rightarrow> Inr v
      | _ \<Rightarrow> Inl (NotStaticValueError filename))"

text \<open>
  Modelled from the spec: \<open>getArrayOfStringsValueFromAttribute\<close> is not among the sources.
  The rule is the one of the meta-object scan for \<open>tags\<close>: an array of literal strings, a
  non-literal element being fatal; a missing attribute gives the empty array.
\<close>

fun literalStrings :: "expression list \<Rightarrow> jsstring list option" where
  "literalStrings [] = Some []"
| "literalStrings (Literal (StringLiteral v) # rest) = map_option ((#) v) (literalStrings rest)"
| "literalStrings (_ # rest) = None"

definition getArrayOfStringsValueFromAttribute ::
  "attribute option \<Rightarrow> jsstring \<Rightarrow> error + jsstring list" where
  "getArrayOfStringsValueFromAttribute node filename =
     (case node of
        None \<Rightarrow> Inr []
      | Some attribute \<Rightarrow>
          (case attr_value attribute of
             ValueParts [ExpressionTag (ArrayExpression elements)] \<Rightarrow>
               (case literalStrings elements of
                  Some vs \<Rightarrow> Inr vs
                | None \<Rightarrow> Inl (NotStaticValueError filename))
           | _ \<Rightarrow> Inl (NotStaticValueError filename)))"

text \<open>
  An expression statement: the value is computed (its evaluation may have thrown before)
  and dropped.
\<close>

definition expressionStatement :: "'v \<Rightarrow> 'a \<Rightarrow> 'a" where
  "expressionStatement v continue = continue"

text \<open>
  \<^verbatim>\<open>
  for (const attribute of attributes) {
    if (attribute.type === 'Attribute') {
      const { name } = attribute;
      if (name === 'title') {
        state.meta.title === getStringValueFromAttribute({ component: node, node: attribute, filename });
      }
      if (name === 'tags') {
        state.meta.tags === getArrayOfStringsValueFromAttribute({ component: node, node: attribute, filename });
      }
    }
  }
  \<close>
  Both statements are comparisons with \<open>===\<close>, not assignments.
\<close>

fun visitMetaAttributes :: "jsstring \<Rightarrow> attribute list \<Rightarrow> indexer_state \<Rightarrow> error + indexer_state" where
  "visitMetaAttributes filename [] st = Inr st"
| "visitMetaAttributes filename (OtherAttribute # rest) st = visitMetaAttributes filename rest st"
| "visitMetaAttributes filename (Attribute name v # rest) st =
     andThen
       (if name = js ''title''
        then andThen (getStringValueFromAttribute (Attribute name v) filename)
               (\<lambda>value. expressionStatement (meta_title st = Some value) (Inr st))
        else Inr st)
       (\<lambda>st1.
     andThen
       (if name = js ''tags''
        then andThen (getArrayOfStringsValueFromAttribute (Some (Attribute name v)) filename)
               (\<lambda>value. expressionStatement (meta_tags st1 = Some value) (Inr st1))
        else Inr st1)
       (\<lambda>st2. visitMetaAttributes filename rest st2))"

text \<open>
  \<^verbatim>\<open>
  Component(node, context) {
    const { name } = node;
    const { state } = context;
    if (!foundMeta && legacyTemplate && name === componentMetaIdentifier) { ... the loop above ... }
    if (name === componentStoryIdentifier) {
      const attribute = extractStoryAttributesNodes({ component: node,
                                                       attributes: ['exportName', 'name', 'tags'] });
      const { exportName, name } = getStoryIdentifiers({ component: node, nameNode: attribute.name,
                                      exportNameNode: attribute.exportName, filename });
      const tags = getArrayOfStringsValueFromAttribute({ component: node, node: attribute.tags, filename });
      state.stories.push({ exportName, name, tags });
    }
  }
  \<close>
  \<open>getStoryIdentifiers\<close> is not among the sources and is the first argument of the model;
  \<open>extractStoryAttributesNodes\<close> is modelled by \<open>lookupAttribute\<close>, as above.
\<close>

type_synonym story_identifiers =
  "node \<Rightarrow> attribute option \<Rightarrow> attribute option \<Rightarrow> jsstring \<Rightarrow> error + (jsstring \<times> jsstring)"

definition Component_indexer ::
  "story_identifiers \<Rightarrow> jsstring \<Rightarrow> bool \<Rightarrow> node \<Rightarrow> indexer_state \<Rightarrow> error + indexer_state" where
  "Component_indexer getStoryIdentifiers filename legacyTemplate node st =
     andThen
       (if \<not> foundMeta st \<and> legacyTemplate \<and> node_name node = componentMetaIdentifier st
        then visitMetaAttributes filename (attributes node) st
        else Inr st)
       (\<lambda>st1.
          if node_name node = componentStoryIdentifier st1 then
            andThen (getStoryIdentifiers node
                       (lookupAttribute (js ''name'') (attributes node))
                       (lookupAttribute (js ''exportName'') (attributes node)) filename)
              (\<lambda>(exportName, name).
            andThen (getArrayOfStringsValueFromAttribute
                       (lookupAttribute (js ''tags'') (attributes node)) filename)
              (\<lambda>tags.
                 Inr (st1 \<lparr> indexed_stories := indexed_stories st1 @
                        [\<lparr> entry_exportName = exportName, entry_name = name, entry_tags = tags \<rparr>] \<rparr>)))
          else Inr st1)"

text \<open>
  \<^verbatim>\<open>
  Fragment(node, context) {
    for (const node of nodes) { if (node.type === 'Component') { visit(node, state); } }
  }
  \<close>
\<close>

fun Fragment_indexer ::
  "story_identifiers \<Rightarrow> jsstring \<Rightarrow> bool \<Rightarrow> node list \<Rightarrow> indexer_state \<Rightarrow> error + indexer_state" where
  "Fragment_indexer g filename legacyTemplate [] st = Inr st"
| "Fragment_indexer g filename legacyTemplate (Component n a f s e # rest) st =
     andThen (Component_indexer g filename legacyTemplate (Component n a f s e) st)
       (\<lambda>st'. Fragment_indexer g filename legacyTemplate rest st')"
| "Fragment_indexer g filename legacyTemplate (_ # rest) st =
     Fragment_indexer g filename legacyTemplate rest st"

text \<open>
  \<^verbatim>\<open>
  _(_node, context) { const { next, state } = context; next(state); },
  Root(node, context) {
    const { module, fragment } = node;
    const { state, visit } = context;
    if (!module && !legacyTemplate) { throw new MissingModuleTagError(filename); }
    visit(fragment, state);
  }
  \<close>
  The universal handler hands every node on to the handler of its kind. The root handler
  visits the fragment and nothing else, and calls no continuation: the module script is
  tested for presence and never entered. The handlers registered for \<open>Script\<close>,
  \<open>Program\<close>, \<open>ImportDeclaration\<close>, \<open>VariableDeclaration\<close>, \<open>ObjectExpression\<close> and
  \<open>Property\<close> are reached only from the script, so a walk that starts at the root never
  runs them, and the closure variables keep their initial values.
\<close>

definition Root_indexer ::
  "story_identifiers \<Rightarrow> jsstring \<Rightarrow> bool \<Rightarrow> root \<Rightarrow> indexer_state \<Rightarrow> error + indexer_state" where
  "Root_indexer g filename legacyTemplate node st =
     (if root_module node = None \<and> \<not> legacyTemplate
      then Inl (MissingModuleTagError filename)
      else Fragment_indexer g filename legacyTemplate (root_fragment node) st)"

definition initial_indexer_state :: indexer_state where
  "initial_indexer_state =
     \<lparr> meta_title = None, meta_tags = None, indexed_stories = [], foundMeta = False,
       defineMetaIdentifier = js ''defineMeta'', componentStoryIdentifier = js ''Story'',
       componentMetaIdentifier = js ''Meta'' \<rparr>"

text \<open>
  \<open>parseForIndexer\<close>, from the parsed tree on (reading and preprocessing the file and
  parsing it are the work of other packages).
\<close>

definition parseForIndexer ::
  "story_identifiers \<Rightarrow> jsstring \<Rightarrow> bool \<Rightarrow> root \<Rightarrow> error + Results" where
  "parseForIndexer g filename legacyTemplate svelteAST =
     (case Root_indexer g filename legacyTemplate svelteAST initial_indexer_state of
        Inl e \<Rightarrow> Inl e
      | Inr st \<Rightarrow> Inr \<lparr> results_title = meta_title st, results_tags = meta_tags st,
                        results_stories = indexed_stories st \<rparr>)"

text \<open>For the examples: a \<open>getStoryIdentifiers\<close> that is never asked in them.\<close>

definition noStoryIdentifiers :: story_identifiers where
  "noStoryIdentifiers component nameNode exportNameNode filename = Inl TypeError"

section \<open>Properties of the fold hash\<close>

lemma toInt32_cong_mod:
  assumes "x mod 2 ^ 32 = y mod 2 ^ 32"
  shows "toInt32 x = toInt32 y"
proof -
  have "(x + 2 ^ 31) mod 2 ^ 32 = (x mod 2 ^ 32 + 2 ^ 31) mod 2 ^ 32"
    by (simp add: mod_add_left_eq)
  also have "\<dots> = (y mod 2 ^ 32 + 2 ^ 31) mod 2 ^ 32"
    using assms by simp
  also have "\<dots> = (y + 2 ^ 31) mod 2 ^ 32"
    by (simp add: mod_add_left_eq)
  finally show ?thesis
    by (simp add: toInt32_def)
qed

lemma toInt32_mod: "toInt32 x mod 2 ^ 32 = x mod 2 ^ 32"
proof -
  have "toInt32 x mod 2 ^ 32 = ((x + 2 ^ 31) mod 2 ^ 32 - 2 ^ 31) mod 2 ^ 32"
    by (simp add: toInt32_def)
  also have "\<dots> = (x + 2 ^ 31 - 2 ^ 31) mod 2 ^ 32"
    by (rule mod_diff_left_eq)
  finally show ?thesis by simp
qed

lemma toInt32_range: "- (2 ^ 31) \<le> toInt32 x \<and> toInt32 x < 2 ^ 31"
proof -
  have "0 \<le> (x + 2 ^ 31) mod (2 ^ 32 :: int)" "(x + 2 ^ 31) mod (2 ^ 32 :: int) < 2 ^ 32"
    by simp_all
  then show ?thesis
    by (simp add: toInt32_def)
qed

lemma hashStep_mul31: "hashStep prev ch = toInt32 (prev * 31 + uint ch)"
proof -
  have "shl prev 5 mod 2 ^ 32 = (prev * 32) mod 2 ^ 32"
  proof -
    have "shl prev 5 mod 2 ^ 32 = (toInt32 prev * 32) mod 2 ^ 32"
      using toInt32_mod [of "toInt32 prev * 32"] by (simp add: shl_def)
    also have "\<dots> = (toInt32 prev mod 2 ^ 32 * 32) mod 2 ^ 32"
      by (rule mod_mult_left_eq [symmetric])
    also have "\<dots> = (prev mod 2 ^ 32 * 32) mod 2 ^ 32"
      by (simp only: toInt32_mod)
    also have "\<dots> = (prev * 32) mod 2 ^ 32"
      by (rule mod_mult_left_eq)
    finally show ?thesis .
  qed
  then have "(shl prev 5 - prev + uint ch) mod 2 ^ 32 = (prev * 32 - prev + uint ch) mod 2 ^ 32"
    by (metis mod_add_cong mod_diff_cong)
  also have "prev * 32 - prev + uint ch = prev * 31 + uint ch"
    by simp
  finally show ?thesis
    unfolding hashStep_def or0_def charCodeAt0_def by (rule toInt32_cong_mod)
qed

lemma hashFold_eq_spec: "hashFold str = hashFold_spec str"
proof -
  have "hashStep = (\<lambda>acc c. toInt32 (acc * 31 + uint c))"
    by (intro ext) (rule hashStep_mul31)
  then show ?thesis
    by (simp add: hashFold_def hashFold_spec_def)
qed

lemma hexValue_hexDigit: "d < 16 \<Longrightarrow> hexValue (hexDigit d) = d"
proof -
  assume d: "d < 16"
  then have "d \<in> {0,1,2,3,4,5,6,7,8,9,10,11,12,13,14,15}"
    by simp arith
  then show ?thesis
    by (auto simp: hexValue_def hexDigit_def)
qed

lemma hexNumber_snoc: "hexNumber (s @ [c]) = hexNumber s * 16 + hexValue c"
  by (simp add: hexNumber_def)

lemma hexNumber_toString16: "hexNumber (toString16 n) = n"
proof (induction n rule: toString16.induct)
  case (1 n)
  show ?case
  proof (cases "n < 16")
    case True
    then show ?thesis
      by (subst toString16.simps) (simp add: hexNumber_def hexValue_hexDigit)
  next
    case False
    then have "hexNumber (toString16 n) = hexNumber (toString16 (n div 16)) * 16 + hexValue (hexDigit (n mod 16))"
      by (subst toString16.simps) (simp add: hexNumber_snoc)
    also have "\<dots> = n div 16 * 16 + n mod 16"
      using False "1.IH" by (simp add: hexValue_hexDigit)
    finally show ?thesis by simp
  qed
qed

text \<open>
  C7. For every string, the suffix \<open>hashCode\<close> computes is the hexadecimal representation
  of the absolute value of the multiply-by-31 fold hash wrapped to signed 32 bits; each
  step \<open>(prev << 5) - prev + charCode\<close> under \<open>| 0\<close> is exactly
  \<open>prev * 31 + charCode\<close> wrapped, the wrapped value lies in the signed 32-bit range,
  and the printed digits denote the absolute value of the hash.
\<close>

theorem hashCode_is_mul31_fold_hex:
  "hashCode str = hashCode_spec str
   \<and> hashStep prev ch = toInt32 (prev * 31 + charCodeAt0 ch)
   \<and> - (2 ^ 31) \<le> hashFold str \<and> hashFold str < 2 ^ 31
   \<and> hexNumber (hashCode str) = nat \<bar>hashFold_spec str\<bar>"
proof -
  have range: "- (2 ^ 31) \<le> hashFold str \<and> hashFold str < 2 ^ 31"
  proof (cases str rule: rev_cases)
    case Nil
    then show ?thesis by (simp add: hashFold_def)
  next
    case (snoc ys y)
    then have "hashFold str = toInt32 (hashFold ys * 31 + uint y)"
      by (simp add: hashFold_def hashStep_mul31)
    then show ?thesis
      using toInt32_range by simp
  qed
  show ?thesis
    using range
    by (simp add: hashCode_def hashCode_spec_def hashFold_eq_spec hashStep_mul31
        charCodeAt0_def hexNumber_toString16)
qed

section \<open>Properties of the identity resolver\<close>

lemma isWordChar_not_terminator: "isWordChar c \<Longrightarrow> \<not> isLineTerminator c"
  by (auto simp: isWordChar_def isLineTerminator_def)

lemma matchNonWordRun_word: "isWordChar c \<Longrightarrow> matchNonWordRun (c # cs) = None"
  by (simp add: matchNonWordRun_def)

text \<open>
  After the whole run of non-word units comes the end of the string or a word character,
  so the first attempt always matches and the matcher never backtracks.
\<close>

lemma matchNonWordRun_run:
  assumes "\<not> isWordChar c"
  shows "matchNonWordRun (c # cs) =
     (case dropWhile (\<lambda>c. \<not> isWordChar c) cs of
        [] \<Rightarrow> Some ([], [])
      | d # ds \<Rightarrow> Some ([d], ds))"
proof -
  let ?P = "\<lambda>c. \<not> isWordChar c"
  let ?s = "c # cs"
  have len: "length (takeWhile ?P ?s) = Suc (length (takeWhile ?P cs))"
    using assms by simp
  have dr: "drop (Suc (length (takeWhile ?P cs))) ?s = dropWhile ?P cs"
    by (simp add: dropWhile_eq_drop)
  show ?thesis
  proof (cases "dropWhile ?P cs")
    case Nil
    show ?thesis
      unfolding matchNonWordRun_def len matchGroupAfter.simps dr Nil by simp
  next
    case (Cons d ds)
    then have "isWordChar d"
      by (metis hd_dropWhile list.distinct(1) list.sel(1))
    then have "\<not> isLineTerminator d"
      by (rule isWordChar_not_terminator)
    then show ?thesis
      unfolding matchNonWordRun_def len matchGroupAfter.simps dr Cons by simp
  qed
qed

lemma matchNonWordRun_group:
  "matchNonWordRun s = Some (chr, rest) \<Longrightarrow> chr = [] \<or> (\<exists>d. chr = [d] \<and> isWordChar d)"
proof (cases s)
  case Nil
  assume "matchNonWordRun s = Some (chr, rest)"
  with Nil show ?thesis by (simp add: matchNonWordRun_def)
next
  case (Cons c cs)
  assume m: "matchNonWordRun s = Some (chr, rest)"
  show ?thesis
  proof (cases "isWordChar c")
    case True
    with m Cons show ?thesis by (simp add: matchNonWordRun_word)
  next
    case False
    show ?thesis
    proof (cases "dropWhile (\<lambda>c. \<not> isWordChar c) cs")
      case Nil
      have "matchNonWordRun s = Some ([], [])"
        unfolding Cons matchNonWordRun_run [OF False] Nil by simp
      with m show ?thesis by simp
    next
      case dw: (Cons d ds)
      then have "isWordChar d"
        by (metis hd_dropWhile list.distinct(1) list.sel(1))
      moreover have "matchNonWordRun s = Some ([d], ds)"
        unfolding Cons matchNonWordRun_run [OF False] dw by simp
      ultimately show ?thesis using m by simp
    qed
  qed
qed

lemma camelCaseFold_skip:
  "\<not> isWordChar c \<Longrightarrow>
   camelCaseFold b (c # cs) = camelCaseFold True (dropWhile (\<lambda>c. \<not> isWordChar c) cs)"
proof (induction cs arbitrary: b c)
  case Nil
  then show ?case by simp
next
  case (Cons d ds)
  then show ?case by simp
qed

lemma toUpperCase_Nil: "toUpperCase [] = []"
  by (simp add: toUpperCase_def)

lemma toUpperCase_single: "toUpperCase [d] = [upperUnit d]"
  by (simp add: toUpperCase_def)

lemma replaceNonWordRuns_camelCaseFold:
  "replaceNonWordRuns toUpperCase s = camelCaseFold False s"
proof (induction s rule: length_induct)
  case (1 s)
  show ?case
  proof (cases s)
    case Nil
    then show ?thesis by simp
  next
    case s: (Cons c cs)
    show ?thesis
    proof (cases "isWordChar c")
      case True
      then have "matchNonWordRun (c # cs) = None"
        by (rule matchNonWordRun_word)
      moreover have "replaceNonWordRuns toUpperCase cs = camelCaseFold False cs"
        using 1 s by simp
      ultimately show ?thesis using True s by simp
    next
      case False
      note run = matchNonWordRun_run [OF False, of cs]
      note skip = camelCaseFold_skip [OF False, of False cs]
      show ?thesis
      proof (cases "dropWhile (\<lambda>c. \<not> isWordChar c) cs")
        case Nil
        have m: "matchNonWordRun (c # cs) = Some ([], [])"
          unfolding run Nil by simp
        have "camelCaseFold False (c # cs) = []"
          unfolding skip Nil by simp
        with m s show ?thesis
          by (simp add: toUpperCase_Nil toUpperCase_single)
      next
        case (Cons d ds)
        then have d: "isWordChar d"
          by (metis hd_dropWhile list.distinct(1) list.sel(1))
        have m: "matchNonWordRun (c # cs) = Some ([d], ds)"
          unfolding run Cons by simp
        have "length (dropWhile (\<lambda>c. \<not> isWordChar c) cs) \<le> length cs"
          by (rule length_dropWhile_le)
        then have "length ds < length s"
          unfolding Cons s by simp
        then have ih: "replaceNonWordRuns toUpperCase ds = camelCaseFold False ds"
          using 1 by simp
        have "camelCaseFold False (c # cs) = upperUnit d # camelCaseFold False ds"
          unfolding skip Cons using d by simp
        with m ih s show ?thesis
          by (simp add: toUpperCase_Nil toUpperCase_single)
      qed
    qed
  qed
qed

lemma generatedId_camelCaseFold: "generatedId name = camelCaseFold False name"
  by (simp add: generatedId_def replaceNonWordRuns_camelCaseFold)

text \<open>
  C6. For a story with no \<open>id\<close> attribute, the id \<open>getStoryId\<close> derives is the name
  with every run of non-word characters removed and the character right after each run
  upper-cased (followed by the hash suffix only when that id is already in the set of
  ids); the name "My story!!" derives "MyStory".
\<close>

theorem derived_id_is_camelCaseFold:
  "generatedId name = camelCaseFold False name
   \<and> (getStringFromAttribute (js ''id'') attrs = Inr None \<longrightarrow>
        getStoryId attrs name ids =
          Inr (if camelCaseFold False name \<in> ids
               then (camelCaseFold False name @ hashCode name, [conflictWarning name])
               else (camelCaseFold False name, [])))
   \<and> generatedId (js ''My story!!'') = js ''MyStory''"
proof -
  have "camelCaseFold False (js ''My story!!'') = js ''MyStory''"
    by code_simp
  then show ?thesis
    by (simp add: getStoryId_def generatedId_camelCaseFold)
qed

theorem derived_id_is_camelCaseFold_witness:
  "getStringFromAttribute (js ''id'')
     [Attribute (js ''name'') (ValueParts [Text (js ''Hello, world'')])] = Inr None
   \<and> getStoryId [Attribute (js ''name'') (ValueParts [Text (js ''Hello, world'')])]
        (js ''Hello, world'') {} = Inr (js ''HelloWorld'', [])"
proof -
  have h: "getStringFromAttribute (js ''id'')
     [Attribute (js ''name'') (ValueParts [Text (js ''Hello, world'')])] = Inr None"
    by (simp add: getStringFromAttribute_def lookupAttribute_def js_def)
  have e: "camelCaseFold False (js ''Hello, world'') = js ''HelloWorld''"
    by code_simp
  from derived_id_is_camelCaseFold
    [of "js ''Hello, world''" "[Attribute (js ''name'') (ValueParts [Text (js ''Hello, world'')])]" "{}"]
    h e show ?thesis by simp
qed

section \<open>Properties of the fragment walker\<close>

lemma andThen_Inr:
  "andThen m f = Inr y \<longleftrightarrow> (\<exists>x. m = Inr x \<and> f x = Inr y)"
  by (cases m) (simp_all add: andThen_def)

lemma Component_visitor_marker:
  assumes "Component_visitor dedent source ident (Component ident a f s e) st = Inr st'"
  shows "\<exists>name src raw i logged.
           getStoryName a (storiesNames st) = Inr name
         \<and> getSourceAttribute a = Inr src
         \<and> getChildrenRawSource dedent f source = Inr raw
         \<and> getStoryId a name (storiesIds st) = Inr (i, logged)
         \<and> st' = st \<lparr> stories := assignProperty (stories st) name
                        \<lparr> meta_id = i, meta_name = name,
                          description = descriptionFor dedent (latestComment st) s,
                          meta_source = src, rawSource = raw \<rparr>,
                      warnings := warnings st @ logged,
                      latestComment := None \<rparr>"
  using assms
  by (auto simp: Component_visitor_def andThen_Inr Let_def split: prod.splits)

lemma Component_visitor_other:
  "n \<noteq> ident \<Longrightarrow>
   Component_visitor dedent source ident (Component n a f s e) st = Inr (st \<lparr> latestComment := None \<rparr>)"
  by (simp add: Component_visitor_def)

lemma recordedStory_assignProperty:
  "recordedStory (assignProperty obj key v) key = Some v"
  by (simp add: recordedStory_def assignProperty_def)

text \<open>What the handler records for a marker, read back where the assignment left it.\<close>

lemma Component_visitor_recorded:
  assumes "Component_visitor dedent source ident (Component ident a f s e) st = Inr st'"
  shows "\<exists>name m. getStoryName a (storiesNames st) = Inr name
           \<and> recordedStory (stories st') name = Some m
           \<and> meta_name m = name
           \<and> description m = descriptionFor dedent (latestComment st) s
           \<and> (\<exists>raw. getChildrenRawSource dedent f source = Inr raw \<and> rawSource m = raw)"
proof -
  from Component_visitor_marker [OF assms] obtain name src raw i logged where
    n: "getStoryName a (storiesNames st) = Inr name" and
    r: "getChildrenRawSource dedent f source = Inr raw" and
    st': "st' = st \<lparr> stories := assignProperty (stories st) name
                        \<lparr> meta_id = i, meta_name = name,
                          description = descriptionFor dedent (latestComment st) s,
                          meta_source = src, rawSource = raw \<rparr>,
                      warnings := warnings st @ logged,
                      latestComment := None \<rparr>"
    by (elim exE conjE)
  let ?m = "\<lparr> meta_id = i, meta_name = name,
              description = descriptionFor dedent (latestComment st) s,
              meta_source = src, rawSource = raw \<rparr>"
  show ?thesis
  proof (intro exI conjI)
    show "getStoryName a (storiesNames st) = Inr name" by (rule n)
    show "recordedStory (stories st') name = Some ?m"
      by (simp add: st' recordedStory_assignProperty)
    show "meta_name ?m = name" by simp
    show "description ?m = descriptionFor dedent (latestComment st) s" by simp
    show "getChildrenRawSource dedent f source = Inr raw" by (rule r)
    show "rawSource ?m = raw" by simp
  qed
qed

text \<open>Inert nodes leave the state of the walk as it is.\<close>

lemma inert_visit:
  "inert n \<Longrightarrow> visit dedent source ident n st = Inr st"
  "inert_all ns \<Longrightarrow> visit_all dedent source ident ns st = Inr st"
  by (induction dedent source ident n st and dedent source ident ns st
      rule: visit_visit_all.induct) simp_all

lemma visit_all_append:
  "visit_all dedent source ident (xs @ ys) st =
     (case visit_all dedent source ident xs st of
        Inl err \<Rightarrow> Inl err
      | Inr st1 \<Rightarrow> visit_all dedent source ident ys st1)"
  by (induction xs arbitrary: st) (simp_all split: sum.splits)

text \<open>
  A comment, inert nodes, then a marker: the handler of the marker runs in the state the
  comment handler left, where the cursor is that comment.
\<close>

lemma comment_then_marker:
  assumes "inert_all between"
      and "visit_all dedent source ident (Comment d cs ce # between @ [Component ident a f s e]) st
           = Inr st'"
  shows "Component_visitor dedent source ident (Component ident a f s e)
           (st \<lparr> latestComment := Some (Comment d cs ce) \<rparr>) = Inr st'"
proof -
  let ?st1 = "st \<lparr> latestComment := Some (Comment d cs ce) \<rparr>"
  have "visit_all dedent source ident (Comment d cs ce # between @ [Component ident a f s e]) st
        = visit_all dedent source ident (between @ [Component ident a f s e]) ?st1"
    by (simp add: Comment_visitor_def)
  also have "\<dots> = visit_all dedent source ident [Component ident a f s e] ?st1"
    by (simp add: visit_all_append inert_visit(2) [OF assms(1)])
  also have "\<dots> = Component_visitor dedent source ident (Component ident a f s e) ?st1"
    by (simp split: sum.splits)
  finally show ?thesis using assms(2) by simp
qed

text \<open>
  C3. In a walk, a comment followed (over text or other nodes holding no comment and no
  component) by a recognized marker is tracked as the latest comment, and it becomes the
  story's description, dedented, exactly when its end offset is the marker's start offset
  minus one; otherwise the story has no description. The same holds for whatever comment
  the cursor holds when the marker is handled, and with an empty cursor there is no
  description. A marker that touched the comment and is moved further away (as by
  inserting a blank line) loses the description.
\<close>

theorem description_iff_comment_touches_marker:
  "(inert_all between \<longrightarrow>
    visit_all dedent source ident (Comment d cs ce # between @ [Component ident a f s e]) st = Inr st'
    \<longrightarrow> (\<exists>name m. getStoryName a (storiesNames st) = Inr name
                  \<and> recordedStory (stories st') name = Some m
                  \<and> description m = (if int ce = int s - 1 then Some (dedent d) else None)))
   \<and> (latestComment st = Some c \<longrightarrow>
      Component_visitor dedent source ident (Component ident a f s e) st = Inr st2
      \<longrightarrow> (\<exists>name m. getStoryName a (storiesNames st) = Inr name
                  \<and> recordedStory (stories st2) name = Some m
                  \<and> (description m = Some (dedent (data c)) \<longleftrightarrow> int (node_end c) = int s - 1)
                  \<and> (description m = None \<longleftrightarrow> int (node_end c) \<noteq> int s - 1)))
   \<and> (latestComment st = None \<longrightarrow>
      Component_visitor dedent source ident (Component ident a f s e) st = Inr st2
      \<longrightarrow> (\<exists>name m. getStoryName a (storiesNames st) = Inr name
                  \<and> recordedStory (stories st2) name = Some m \<and> description m = None))
   \<and> (inert_all moved \<longrightarrow> int ce = int s - 1 \<longrightarrow> 0 < k \<longrightarrow>
      visit_all dedent source ident (Comment d cs ce # moved @ [Component ident a f (s + k) e2]) st
        = Inr st3
      \<longrightarrow> (\<exists>name m. getStoryName a (storiesNames st) = Inr name
                  \<and> recordedStory (stories st3) name = Some m \<and> description m = None))"
proof (intro conjI impI)
  assume i: "inert_all between"
     and v: "visit_all dedent source ident (Comment d cs ce # between @ [Component ident a f s e]) st
             = Inr st'"
  from Component_visitor_recorded [OF comment_then_marker [OF i v]] obtain name m where
    "getStoryName a (storiesNames st) = Inr name"
    "recordedStory (stories st') name = Some m"
    "description m = descriptionFor dedent (Some (Comment d cs ce)) s"
    by auto
  then show "\<exists>name m. getStoryName a (storiesNames st) = Inr name
                  \<and> recordedStory (stories st') name = Some m
                  \<and> description m = (if int ce = int s - 1 then Some (dedent d) else None)"
    by (auto simp: descriptionFor_def)
next
  assume l: "latestComment st = Some c"
     and v: "Component_visitor dedent source ident (Component ident a f s e) st = Inr st2"
  from Component_visitor_recorded [OF v] obtain name m where
    "getStoryName a (storiesNames st) = Inr name"
    "recordedStory (stories st2) name = Some m"
    "description m = descriptionFor dedent (latestComment st) s"
    by auto
  with l show "\<exists>name m. getStoryName a (storiesNames st) = Inr name
                  \<and> recordedStory (stories st2) name = Some m
                  \<and> (description m = Some (dedent (data c)) \<longleftrightarrow> int (node_end c) = int s - 1)
                  \<and> (description m = None \<longleftrightarrow> int (node_end c) \<noteq> int s - 1)"
    by (auto simp: descriptionFor_def)
next
  assume l: "latestComment st = None"
     and v: "Component_visitor dedent source ident (Component ident a f s e) st = Inr st2"
  from Component_visitor_recorded [OF v] obtain name m where
    "getStoryName a (storiesNames st) = Inr name"
    "recordedStory (stories st2) name = Some m"
    "description m = descriptionFor dedent (latestComment st) s"
    by auto
  with l show "\<exists>name m. getStoryName a (storiesNames st) = Inr name
                  \<and> recordedStory (stories st2) name = Some m \<and> description m = None"
    by (auto simp: descriptionFor_def)
next
  assume i: "inert_all moved" and t: "int ce = int s - 1" and k: "0 < k"
     and v: "visit_all dedent source ident (Comment d cs ce # moved @ [Component ident a f (s + k) e2]) st
             = Inr st3"
  from Component_visitor_recorded [OF comment_then_marker [OF i v]] obtain name m where
    "getStoryName a (storiesNames st) = Inr name"
    "recordedStory (stories st3) name = Some m"
    "description m = descriptionFor dedent (Some (Comment d cs ce)) (s + k)"
    by auto
  with t k show "\<exists>name m. getStoryName a (storiesNames st) = Inr name
                  \<and> recordedStory (stories st3) name = Some m \<and> description m = None"
    by (auto simp: descriptionFor_def)
qed

text \<open>The definitions a concrete document is evaluated with.\<close>

lemmas eval_defs = Component_visitor_def Comment_visitor_def andThen_def getStoryName_def
  getStringFromAttribute_def lookupAttribute_def getSourceAttribute_def getBooleanFromAttribute_def
  getChildrenRawSource_def getStoryId_def generatedId_def matchNonWordRun_def isWordChar_def
  isLineTerminator_def toUpperCase_def upperUnit_def
  descriptionFor_def initial_state_def emptyObject_def keysOf_def assignProperty_def
  recordedStory_def js_def apostrophe_def quote_def spanOf_def isChildrenSnippet_def
  slice_def walk_def walkOnFragment_def storyTag_def storyTagWithId_def nestedDoc_def

theorem description_iff_comment_touches_marker_witness:
  "(\<exists>st1 m. walk (\<lambda>s. s)
               [Comment (js ''A primary button'') 0 25, OtherNode [] 25 26,
                storyTag (js ''Primary'') 26 50 []] (js ''src'') (js ''Story'') = Inr st1
           \<and> recordedStory (stories st1) (js ''Primary'') = Some m
           \<and> description m = Some (js ''A primary button''))
   \<and> (\<exists>st1 m. walk (\<lambda>s. s)
               [Comment (js ''A primary button'') 0 25, OtherNode [] 25 27,
                storyTag (js ''Primary'') 27 51 []] (js ''src'') (js ''Story'') = Inr st1
           \<and> recordedStory (stories st1) (js ''Primary'') = Some m
           \<and> description m = None)"
proof -
  let ?a = "[Attribute (js ''name'') (ValueParts [Text (js ''Primary'')])]"
  let ?touching = "initial_state \<lparr> stories := \<lparr> ownProperties = [js ''Primary'' \<mapsto>
            \<lparr> meta_id = js ''Primary'', meta_name = js ''Primary'',
              description = Some (js ''A primary button''), meta_source = None, rawSource = None \<rparr>],
            prototype = None \<rparr> \<rparr>"
  let ?apart = "initial_state \<lparr> stories := \<lparr> ownProperties = [js ''Primary'' \<mapsto>
            \<lparr> meta_id = js ''Primary'', meta_name = js ''Primary'',
              description = None, meta_source = None, rawSource = None \<rparr>],
            prototype = None \<rparr> \<rparr>"
  have n: "getStoryName ?a (storiesNames initial_state) = Inr (js ''Primary'')"
    by (simp add: eval_defs)
  have i1: "inert_all [OtherNode [] 25 26]" and i2: "inert_all [OtherNode [] 25 27]"
    by simp_all
  have v1: "visit_all (\<lambda>s. s) (js ''src'') (js ''Story'')
              (Comment (js ''A primary button'') 0 25 # [OtherNode [] 25 26]
                 @ [Component (js ''Story'') ?a [] 26 50]) initial_state = Inr ?touching"
    by (simp add: eval_defs)
  have v2: "visit_all (\<lambda>s. s) (js ''src'') (js ''Story'')
              (Comment (js ''A primary button'') 0 25 # [OtherNode [] 25 27]
                 @ [Component (js ''Story'') ?a [] 27 51]) initial_state = Inr ?apart"
    by (simp add: eval_defs)
  from description_iff_comment_touches_marker [THEN conjunct1, THEN mp, THEN mp, OF i1 v1]
  obtain name1 m1 where
    a1: "getStoryName ?a (storiesNames initial_state) = Inr name1" and
    b1: "recordedStory (stories ?touching) name1 = Some m1" and
    c1: "description m1 = (if int 25 = int 26 - 1 then Some (js ''A primary button'') else None)"
    by (elim exE conjE)
  from description_iff_comment_touches_marker [THEN conjunct1, THEN mp, THEN mp, OF i2 v2]
  obtain name2 m2 where
    a2: "getStoryName ?a (storiesNames initial_state) = Inr name2" and
    b2: "recordedStory (stories ?apart) name2 = Some m2" and
    c2: "description m2 = (if int 25 = int 27 - 1 then Some (js ''A primary button'') else None)"
    by (elim exE conjE)
  from a1 n have n1: "name1 = js ''Primary''" by simp
  from a2 n have n2: "name2 = js ''Primary''" by simp
  from c1 have d1: "description m1 = Some (js ''A primary button'')" by simp
  from c2 have d2: "description m2 = None" by simp
  have w1: "walk (\<lambda>s. s)
               [Comment (js ''A primary button'') 0 25, OtherNode [] 25 26,
                storyTag (js ''Primary'') 26 50 []] (js ''src'') (js ''Story'') = Inr ?touching"
    using v1 by (simp add: walk_def storyTag_def)
  have w2: "walk (\<lambda>s. s)
               [Comment (js ''A primary button'') 0 25, OtherNode [] 25 27,
                storyTag (js ''Primary'') 27 51 []] (js ''src'') (js ''Story'') = Inr ?apart"
    using v2 by (simp add: walk_def storyTag_def)
  show ?thesis
  proof (intro conjI)
    show "\<exists>st1 m. walk (\<lambda>s. s)
               [Comment (js ''A primary button'') 0 25, OtherNode [] 25 26,
                storyTag (js ''Primary'') 26 50 []] (js ''src'') (js ''Story'') = Inr st1
           \<and> recordedStory (stories st1) (js ''Primary'') = Some m
           \<and> description m = Some (js ''A primary button'')"
      using w1 b1 d1 unfolding n1 by (intro exI [of _ ?touching] exI [of _ m1] conjI)
    show "\<exists>st1 m. walk (\<lambda>s. s)
               [Comment (js ''A primary button'') 0 25, OtherNode [] 25 27,
                storyTag (js ''Primary'') 27 51 []] (js ''src'') (js ''Story'') = Inr st1
           \<and> recordedStory (stories st1) (js ''Primary'') = Some m
           \<and> description m = None"
      using w2 b2 d2 unfolding n2 by (intro exI [of _ ?apart] exI [of _ m2] conjI)
  qed
qed

text \<open>
  C9. With zero child nodes \<open>getChildrenRawSource\<close> returns \<open>undefined\<close>, and the
  story the handler records for such a marker has no \<open>rawSource\<close>, not the empty string.
\<close>

theorem no_children_no_rawSource:
  "getChildrenRawSource dedent [] source = Inr None
   \<and> (Component_visitor dedent source ident (Component ident a [] s e) st = Inr st' \<longrightarrow>
        (\<exists>name m. getStoryName a (storiesNames st) = Inr name
                 \<and> recordedStory (stories st') name = Some m
                 \<and> rawSource m = None \<and> rawSource m \<noteq> Some []))"
proof (intro conjI impI)
  show r: "getChildrenRawSource dedent [] source = Inr None"
    by (simp add: getChildrenRawSource_def)
  assume "Component_visitor dedent source ident (Component ident a [] s e) st = Inr st'"
  from Component_visitor_recorded [OF this] r
  show "\<exists>name m. getStoryName a (storiesNames st) = Inr name
                 \<and> recordedStory (stories st') name = Some m
                 \<and> rawSource m = None \<and> rawSource m \<noteq> Some []"
    by auto
qed

theorem no_children_no_rawSource_witness:
  "\<exists>st1 m. walk (\<lambda>s. s) [storyTag (js ''Primary'') 0 24 []] (js ''<Story name=Primary />'')
              (js ''Story'') = Inr st1
          \<and> recordedStory (stories st1) (js ''Primary'') = Some m \<and> rawSource m = None"
proof -
  let ?a = "[Attribute (js ''name'') (ValueParts [Text (js ''Primary'')])]"
  let ?src = "js ''<Story name=Primary />''"
  let ?st1 = "initial_state \<lparr> stories := \<lparr> ownProperties = [js ''Primary'' \<mapsto>
            \<lparr> meta_id = js ''Primary'', meta_name = js ''Primary'',
              description = None, meta_source = None, rawSource = None \<rparr>], prototype = None \<rparr> \<rparr>"
  have v: "Component_visitor (\<lambda>s. s) ?src (js ''Story'') (Component (js ''Story'') ?a [] 0 24) initial_state
           = Inr ?st1"
    by (simp add: eval_defs)
  have n: "getStoryName ?a (storiesNames initial_state) = Inr (js ''Primary'')"
    by (simp add: eval_defs)
  from no_children_no_rawSource [THEN conjunct2, THEN mp, OF v]
  obtain name m where
    a: "getStoryName ?a (storiesNames initial_state) = Inr name" and
    b: "recordedStory (stories ?st1) name = Some m" and
    c: "rawSource m = None"
    by (elim conjE exE)
  from a n have name: "name = js ''Primary''" by simp
  have w: "walk (\<lambda>s. s) [storyTag (js ''Primary'') 0 24 []] ?src (js ''Story'') = Inr ?st1"
    using v by (simp add: walk_def storyTag_def)
  show ?thesis
    using w b c unfolding name by (intro exI [of _ ?st1] exI [of _ m] conjI)
qed

lemma Component_visitor_sets:
  assumes "Component_visitor dedent source ident (Component n a f s e) st = Inr st'"
  shows "storiesNames st' = storiesNames st \<and> storiesIds st' = storiesIds st"
proof (cases "n = ident")
  case True
  with assms have "Component_visitor dedent source ident (Component ident a f s e) st = Inr st'"
    by simp
  from Component_visitor_marker [OF this] obtain name src raw i logged where
    "st' = st \<lparr> stories := assignProperty (stories st) name
                        \<lparr> meta_id = i, meta_name = name,
                          description = descriptionFor dedent (latestComment st) s,
                          meta_source = src, rawSource = raw \<rparr>,
                      warnings := warnings st @ logged,
                      latestComment := None \<rparr>"
    by (elim exE conjE)
  then show ?thesis by simp
next
  case False
  with assms have "st' = st \<lparr> latestComment := None \<rparr>"
    by (simp add: Component_visitor_other)
  then show ?thesis by simp
qed

lemma visit_preserves_sets:
  "visit dedent source ident n st = Inr st' \<Longrightarrow>
     storiesNames st' = storiesNames st \<and> storiesIds st' = storiesIds st"
  "visit_all dedent source ident ns st = Inr st' \<Longrightarrow>
     storiesNames st' = storiesNames st \<and> storiesIds st' = storiesIds st"
proof (induction dedent source ident n st and dedent source ident ns st arbitrary: st' and st'
    rule: visit_visit_all.induct)
  case (1 dedent source ident d s e st)
  then have "st' = st \<lparr> latestComment := Some (Comment d s e) \<rparr>"
    by (simp add: Comment_visitor_def)
  then show ?case by simp
next
  case (2 dedent source ident n a f s e st)
  then show ?case by (simp add: Component_visitor_sets)
next
  case (3 dedent source ident n b s e st)
  then show ?case by simp
next
  case (4 dedent source ident k s e st)
  then show ?case by simp
next
  case (5 dedent source ident st)
  then show ?case by simp
next
  case (6 dedent source ident n ns st)
  from "6.prems" obtain st1 where
    v1: "visit dedent source ident n st = Inr st1" and
    v2: "visit_all dedent source ident ns st1 = Inr st'"
    by (cases "visit dedent source ident n st") simp_all
  from "6.IH"(1) [OF v1] "6.IH"(2) [OF v1 v2] show ?case
    by simp
qed

lemma recognizedNames_Nil: "recognizedNames names [] = {}"
  by (simp add: recognizedNames_def)

lemma recognizedNames_single:
  "getStoryName (attributes m) names = Inr name \<Longrightarrow> recognizedNames names [m] = {name}"
  by (auto simp: recognizedNames_def)

lemma recognizedNames_append:
  "recognizedNames names (xs @ ys) = recognizedNames names xs \<union> recognizedNames names ys"
  by (auto simp: recognizedNames_def)

text \<open>
  The keys and the prototype of the accumulator after a visit: the keys gained are the
  names of the markers outside components, but for \<open>__proto__\<close>, which sets the prototype.
\<close>

lemma keysOf_assignProperty:
  "keysOf (assignProperty obj key v) = keysOf obj \<union> ({key} - {js ''__proto__''})"
  by (auto simp: keysOf_def assignProperty_def)

lemma prototype_assignProperty:
  "prototype (assignProperty obj key v) \<noteq> None \<longleftrightarrow> prototype obj \<noteq> None \<or> key = js ''__proto__''"
  by (simp add: assignProperty_def)

lemma Component_visitor_keys:
  assumes "Component_visitor dedent source ident (Component n a f s e) st = Inr st'"
  shows "keysOf (stories st') = keysOf (stories st)
           \<union> (recognizedNames (storiesNames st) (markersOutsideComponents ident (Component n a f s e))
              - {js ''__proto__''})
       \<and> (prototype (stories st') \<noteq> None \<longleftrightarrow>
            prototype (stories st) \<noteq> None
          \<or> js ''__proto__'' \<in> recognizedNames (storiesNames st)
               (markersOutsideComponents ident (Component n a f s e)))"
proof (cases "n = ident")
  case True
  with assms have "Component_visitor dedent source ident (Component ident a f s e) st = Inr st'"
    by simp
  from Component_visitor_marker [OF this] obtain name src raw i logged where
    n: "getStoryName a (storiesNames st) = Inr name" and
    st': "st' = st \<lparr> stories := assignProperty (stories st) name
                        \<lparr> meta_id = i, meta_name = name,
                          description = descriptionFor dedent (latestComment st) s,
                          meta_source = src, rawSource = raw \<rparr>,
                      warnings := warnings st @ logged,
                      latestComment := None \<rparr>"
    by (elim exE conjE)
  have rn: "recognizedNames (storiesNames st) [Component n a f s e] = {name}"
    by (rule recognizedNames_single) (simp add: n)
  have mk: "markersOutsideComponents ident (Component n a f s e) = [Component n a f s e]"
    using True by simp
  have s1: "stories st' = assignProperty (stories st) name
                        \<lparr> meta_id = i, meta_name = name,
                          description = descriptionFor dedent (latestComment st) s,
                          meta_source = src, rawSource = raw \<rparr>"
    by (simp add: st')
  show ?thesis
    unfolding s1 mk rn keysOf_assignProperty prototype_assignProperty by auto
next
  case False
  with assms have "st' = st \<lparr> latestComment := None \<rparr>"
    by (simp add: Component_visitor_other)
  with False show ?thesis by (simp add: recognizedNames_Nil)
qed

lemma visit_keys:
  "visit dedent source ident n st = Inr st' \<Longrightarrow>
     keysOf (stories st') = keysOf (stories st)
       \<union> (recognizedNames (storiesNames st) (markersOutsideComponents ident n) - {js ''__proto__''})
     \<and> (prototype (stories st') \<noteq> None \<longleftrightarrow>
          prototype (stories st) \<noteq> None
        \<or> js ''__proto__'' \<in> recognizedNames (storiesNames st) (markersOutsideComponents ident n))"
  "visit_all dedent source ident ns st = Inr st' \<Longrightarrow>
     keysOf (stories st') = keysOf (stories st)
       \<union> (recognizedNames (storiesNames st) (markersOutsideComponents_all ident ns) - {js ''__proto__''})
     \<and> (prototype (stories st') \<noteq> None \<longleftrightarrow>
          prototype (stories st) \<noteq> None
        \<or> js ''__proto__'' \<in> recognizedNames (storiesNames st) (markersOutsideComponents_all ident ns))"
proof (induction dedent source ident n st and dedent source ident ns st arbitrary: st' and st'
    rule: visit_visit_all.induct)
  case (1 dedent source ident d s e st)
  then have "st' = st \<lparr> latestComment := Some (Comment d s e) \<rparr>"
    by (simp add: Comment_visitor_def)
  then show ?case by (simp add: recognizedNames_Nil)
next
  case (2 dedent source ident n a f s e st)
  then show ?case by (simp only: visit.simps Component_visitor_keys)
next
  case (3 dedent source ident n b s e st)
  then show ?case by simp
next
  case (4 dedent source ident k s e st)
  then show ?case by simp
next
  case (5 dedent source ident st)
  then show ?case by (simp add: recognizedNames_Nil)
next
  case (6 dedent source ident n ns st)
  from "6.prems" obtain st1 where
    v1: "visit dedent source ident n st = Inr st1" and
    v2: "visit_all dedent source ident ns st1 = Inr st'"
    by (cases "visit dedent source ident n st") simp_all
  from visit_preserves_sets(1) [OF v1] have names: "storiesNames st1 = storiesNames st"
    by simp
  from "6.IH"(1) [OF v1] "6.IH"(2) [OF v1 v2] show ?case
    unfolding names markersOutsideComponents_all.simps recognizedNames_append
    by blast
qed

text \<open>
  C10. The component handler does not continue into a component: a component that is not
  the marker leaves the catalog unchanged whatever its fragment holds; a marker makes one
  assignment, under its own name; and the keys of the catalog a walk returns are exactly
  the names of the markers that lie beneath no component (but for the name \<open>__proto__\<close>,
  which a plain object does not keep as a key: such a marker sets the prototype, and
  nothing else does). A marker nested in another component, or in another marker, is not
  recognized and adds no entry.
\<close>

theorem nested_markers_never_recognized:
  "(n \<noteq> ident \<longrightarrow>
      Component_visitor dedent source ident (Component n a f s e) st = Inr (st \<lparr> latestComment := None \<rparr>))
   \<and> (Component_visitor dedent source ident (Component ident a f s e) st = Inr st' \<longrightarrow>
        (\<exists>name m. getStoryName a (storiesNames st) = Inr name \<and> meta_name m = name
                 \<and> stories st' = assignProperty (stories st) name m))
   \<and> (walkOnFragment dedent nodes source ident = Inr catalog \<longrightarrow>
        keysOf catalog
          = recognizedNames {} (markersOutsideComponents_all ident nodes) - {js ''__proto__''}
      \<and> (prototype catalog \<noteq> None \<longleftrightarrow>
           js ''__proto__'' \<in> recognizedNames {} (markersOutsideComponents_all ident nodes)))"
proof (intro conjI impI)
  assume "n \<noteq> ident"
  then show "Component_visitor dedent source ident (Component n a f s e) st
             = Inr (st \<lparr> latestComment := None \<rparr>)"
    by (rule Component_visitor_other)
next
  assume "Component_visitor dedent source ident (Component ident a f s e) st = Inr st'"
  from Component_visitor_marker [OF this] obtain name src raw i logged where
    n: "getStoryName a (storiesNames st) = Inr name" and
    st': "st' = st \<lparr> stories := assignProperty (stories st) name
                        \<lparr> meta_id = i, meta_name = name,
                          description = descriptionFor dedent (latestComment st) s,
                          meta_source = src, rawSource = raw \<rparr>,
                      warnings := warnings st @ logged,
                      latestComment := None \<rparr>"
    by (elim exE conjE)
  let ?m = "\<lparr> meta_id = i, meta_name = name,
              description = descriptionFor dedent (latestComment st) s,
              meta_source = src, rawSource = raw \<rparr>"
  show "\<exists>name m. getStoryName a (storiesNames st) = Inr name \<and> meta_name m = name
                 \<and> stories st' = assignProperty (stories st) name m"
  proof (intro exI conjI)
    show "getStoryName a (storiesNames st) = Inr name" by (rule n)
    show "meta_name ?m = name" by simp
    show "stories st' = assignProperty (stories st) name ?m" by (simp add: st')
  qed
next
  assume w: "walkOnFragment dedent nodes source ident = Inr catalog"
  then obtain st1 where
    v: "visit_all dedent source ident nodes initial_state = Inr st1" and c: "catalog = stories st1"
    by (cases "visit_all dedent source ident nodes initial_state")
       (simp_all add: walkOnFragment_def walk_def)
  from visit_keys(2) [OF v] c
  show "keysOf catalog
          = recognizedNames {} (markersOutsideComponents_all ident nodes) - {js ''__proto__''}"
    by (simp add: initial_state_def emptyObject_def keysOf_def)
  from visit_keys(2) [OF v] c
  show "prototype catalog \<noteq> None \<longleftrightarrow>
           js ''__proto__'' \<in> recognizedNames {} (markersOutsideComponents_all ident nodes)"
    by (simp add: initial_state_def emptyObject_def)
qed

theorem nested_markers_never_recognized_witness:
  "\<exists>catalog st1.
      walkOnFragment (\<lambda>s. s) nestedDoc (js ''0123456789'') (js ''Story'') = Inr catalog
    \<and> keysOf catalog
        = recognizedNames {} (markersOutsideComponents_all (js ''Story'') nestedDoc) - {js ''__proto__''}
    \<and> keysOf catalog = {js ''Outer''}
    \<and> recordedStory catalog (js ''Inner'') = None \<and> recordedStory catalog (js ''Hidden'') = None
    \<and> Component_visitor (\<lambda>s. s) (js ''0123456789'') (js ''Story'')
          (Component (js ''Wrapper'') [] [storyTag (js ''Hidden'') 12 15 []] 10 19) initial_state
        = Inr (initial_state \<lparr> latestComment := None \<rparr>)
    \<and> Component_visitor (\<lambda>s. s) (js ''0123456789'') (js ''Story'')
          (storyTag (js ''Outer'') 0 9 [storyTag (js ''Inner'') 2 5 []]) initial_state = Inr st1
    \<and> keysOf (stories st1) = {js ''Outer''}"
proof -
  let ?src = "js ''0123456789''"
  let ?a = "[Attribute (js ''name'') (ValueParts [Text (js ''Outer'')])]"
  let ?f = "[storyTag (js ''Inner'') 2 5 []]"
  let ?h = "[storyTag (js ''Hidden'') 12 15 []]"
  let ?m = "\<lparr> meta_id = js ''Outer'', meta_name = js ''Outer'', description = None,
              meta_source = None, rawSource = Some (js ''234'') \<rparr>"
  let ?cat = "\<lparr> ownProperties = [js ''Outer'' \<mapsto> ?m], prototype = None \<rparr>"
  let ?st1 = "initial_state \<lparr> stories := ?cat \<rparr>"
  have w: "walkOnFragment (\<lambda>s. s) nestedDoc ?src (js ''Story'') = Inr ?cat"
    by (simp add: eval_defs)
  have v: "Component_visitor (\<lambda>s. s) ?src (js ''Story'') (Component (js ''Story'') ?a ?f 0 9) initial_state
           = Inr ?st1"
    by (simp add: eval_defs)
  have d: "js ''Wrapper'' \<noteq> js ''Story''"
    by (simp add: js_def)
  note inst = nested_markers_never_recognized
    [where n = "js ''Wrapper''" and ident = "js ''Story''" and dedent = "\<lambda>s. s" and source = "?src"
       and a = "[]" and f = "?h" and s = 10 and e = 19 and st = initial_state
       and nodes = nestedDoc and catalog = "?cat"]
  note inst2 = nested_markers_never_recognized
    [where ident = "js ''Story''" and dedent = "\<lambda>s. s" and source = "?src"
       and a = "?a" and f = "?f" and s = 0 and e = 9 and st = initial_state and st' = "?st1"]
  have keys: "keysOf ?cat
      = recognizedNames {} (markersOutsideComponents_all (js ''Story'') nestedDoc) - {js ''__proto__''}"
    by (rule inst [THEN conjunct2, THEN conjunct2, THEN mp, OF w, THEN conjunct1])
  have o: "Component_visitor (\<lambda>s. s) ?src (js ''Story'') (Component (js ''Wrapper'') [] ?h 10 19) initial_state
          = Inr (initial_state \<lparr> latestComment := None \<rparr>)"
    by (rule inst [THEN conjunct1, THEN mp, OF d])
  from inst2 [THEN conjunct2, THEN conjunct1, THEN mp, OF v] obtain name m where
    "getStoryName ?a (storiesNames initial_state) = Inr name"
    "stories ?st1 = assignProperty (stories initial_state) name m"
    by (elim exE conjE)
  have k1: "keysOf ?cat = {js ''Outer''}"
    by (simp add: keysOf_def)
  have i: "recordedStory ?cat (js ''Inner'') = None" "recordedStory ?cat (js ''Hidden'') = None"
    by (simp_all add: recordedStory_def js_def)
  have dd: "keysOf (stories ?st1) = {js ''Outer''}"
    by (simp add: keysOf_def)
  show ?thesis
    using w keys k1 i o v dd unfolding storyTag_def
    by (intro exI [of _ ?cat] exI [of _ ?st1] conjI)
qed

text \<open>
  A marker named \<open>__proto__\<close> is recognized, but the catalog returned has no key for it.
\<close>

lemma proto_name_adds_no_key:
  "walkOnFragment (\<lambda>s. s) [storyTag (js ''__proto__'') 0 9 []] (js ''src'') (js ''Story'')
   = Inr \<lparr> ownProperties = Map.empty,
           prototype = Some \<lparr> meta_id = js ''__proto__'', meta_name = js ''__proto__'',
                              description = None, meta_source = None, rawSource = None \<rparr> \<rparr>"
  by (simp add: eval_defs)

text \<open>
  An explicit id is returned as it is; and since the walk never adds to \<open>storiesIds\<close> or
  \<open>storiesNames\<close>, no walk logs a warning, whatever the document.
\<close>

lemma explicit_id_is_verbatim:
  "getStringFromAttribute (js ''id'') attrs = Inr (Some i) \<Longrightarrow> i \<noteq> [] \<Longrightarrow>
   getStoryId attrs name ids = Inr (i, [])"
  by (simp add: getStoryId_def)

lemma getStoryId_without_ids:
  "getStoryId attrs name {} = Inr (i, logged) \<Longrightarrow> logged = []"
  by (auto simp: getStoryId_def Let_def split: sum.splits if_splits)

lemma Component_visitor_warnings:
  assumes "storiesIds st = {}"
      and "Component_visitor dedent source ident (Component n a f s e) st = Inr st'"
  shows "warnings st' = warnings st"
proof (cases "n = ident")
  case True
  with assms have "Component_visitor dedent source ident (Component ident a f s e) st = Inr st'"
    by simp
  from Component_visitor_marker [OF this] obtain name src raw i logged where
    i: "getStoryId a name (storiesIds st) = Inr (i, logged)" and
    st': "st' = st \<lparr> stories := assignProperty (stories st) name
                        \<lparr> meta_id = i, meta_name = name,
                          description = descriptionFor dedent (latestComment st) s,
                          meta_source = src, rawSource = raw \<rparr>,
                      warnings := warnings st @ logged,
                      latestComment := None \<rparr>"
    by (elim exE conjE)
  from i assms(1) have "logged = []"
    by (simp add: getStoryId_without_ids)
  with st' show ?thesis by simp
next
  case False
  with assms have "st' = st \<lparr> latestComment := None \<rparr>"
    by (simp add: Component_visitor_other)
  then show ?thesis by simp
qed

lemma visit_warnings:
  "storiesIds st = {} \<Longrightarrow> visit dedent source ident n st = Inr st' \<Longrightarrow>
     warnings st' = warnings st"
  "storiesIds st = {} \<Longrightarrow> visit_all dedent source ident ns st = Inr st' \<Longrightarrow>
     warnings st' = warnings st"
proof (induction dedent source ident n st and dedent source ident ns st arbitrary: st' and st'
    rule: visit_visit_all.induct)
  case (1 dedent source ident d s e st)
  then have "st' = st \<lparr> latestComment := Some (Comment d s e) \<rparr>"
    by (simp add: Comment_visitor_def)
  then show ?case by simp
next
  case (2 dedent source ident n a f s e st)
  then show ?case by (simp add: Component_visitor_warnings)
next
  case (3 dedent source ident n b s e st)
  then show ?case by simp
next
  case (4 dedent source ident k s e st)
  then show ?case by simp
next
  case (5 dedent source ident st)
  then show ?case by simp
next
  case (6 dedent source ident n ns st)
  from "6.prems" obtain st1 where
    v1: "visit dedent source ident n st = Inr st1" and
    v2: "visit_all dedent source ident ns st1 = Inr st'"
    by (cases "visit dedent source ident n st") simp_all
  from visit_preserves_sets(1) [OF v1] "6.prems"(1) have ids: "storiesIds st1 = {}"
    by simp
  from "6.IH"(1) [OF "6.prems"(1) v1] "6.IH"(2) [OF v1 ids v2] show ?case
    by simp
qed

lemma walk_never_warns:
  "walk dedent nodes source ident = Inr st \<Longrightarrow>
   warnings st = [] \<and> storiesIds st = {} \<and> storiesNames st = {}"
proof -
  assume w: "walk dedent nodes source ident = Inr st"
  then have v: "visit_all dedent source ident nodes initial_state = Inr st"
    by (simp add: walk_def)
  have i: "storiesIds initial_state = {}"
    by (simp add: initial_state_def emptyObject_def keysOf_def)
  from visit_warnings(2) [OF i v] visit_preserves_sets(2) [OF v] show ?thesis
    by (simp add: initial_state_def emptyObject_def keysOf_def)
qed

text \<open>
  C1, on the code as written. \<open>storiesNames\<close> is created empty and nothing adds to it, so
  the duplicate check of \<open>getStoryName\<close> never fires: two markers named "Default" are
  both recognized, no error is raised, and the second overwrites the first in the catalog.
\<close>

theorem duplicate_name_is_not_rejected:
  "walkOnFragment (\<lambda>s. s)
     [storyTagWithId (js ''Default'') (js ''first'') 0 10,
      storyTagWithId (js ''Default'') (js ''second'') 11 21] (js ''src'') (js ''Story'')
   = Inr \<lparr> ownProperties =
             [js ''Default'' \<mapsto> \<lparr> meta_id = js ''second'', meta_name = js ''Default'',
                                  description = None, meta_source = None, rawSource = None \<rparr>],
           prototype = None \<rparr>"
  by (simp add: eval_defs)

text \<open>
  C2, on the code as written. \<open>storiesIds\<close> is created from the keys of the empty
  accumulator and nothing adds to it, so a generated id never collides: "Primary CTA!!" and
  "Primary CTA??" both get the id "PrimaryCTA", without suffix and without warning.
\<close>

theorem colliding_generated_ids_are_not_suffixed:
  "walk (\<lambda>s. s)
     [storyTag (js ''Primary CTA!!'') 0 10 [], storyTag (js ''Primary CTA??'') 11 21 []]
     (js ''src'') (js ''Story'')
   = Inr \<lparr> stories =
             \<lparr> ownProperties =
                 [js ''Primary CTA!!'' \<mapsto> \<lparr> meta_id = js ''PrimaryCTA'', meta_name = js ''Primary CTA!!'',
                      description = None, meta_source = None, rawSource = None \<rparr>,
                  js ''Primary CTA??'' \<mapsto> \<lparr> meta_id = js ''PrimaryCTA'', meta_name = js ''Primary CTA??'',
                      description = None, meta_source = None, rawSource = None \<rparr>],
               prototype = None \<rparr>,
           latestComment = None, storiesIds = {}, storiesNames = {}, warnings = [] \<rparr>"
  by (simp add: eval_defs)

section \<open>Properties of the raw-source recovery\<close>

lemmas locator_defs = getStoryChildrenRawSource_def findChildrenPropSnippetBlock_def
  extractStoryAttributesNodes_children_def lookupAttribute_def findTemplateSnippetBlock_def
  findSetTemplateSnippetBlock_def getDefineMetaComponentName_def getSnippetBlockBodyRawCode_def
  rawCodeOf_def spanOf_def sanitizeCodeSlice_def trim_def isWhiteSpace_def slice_def
  extractStoryChildrenSnippetBlock_def isChildrenSnippet_def showFilename_def
  invalidChildrenMessage_def apostrophe_def quote_def js_def

text \<open>
  C4, as stated, fails: a self-closing marker with \<open>children={missing}\<close>, where no snippet
  block is named \<open>missing\<close>, raises nothing; the recovery goes on to the next cases and
  returns the placeholder built from the meta component.
\<close>

theorem unmatched_children_reference_counterexample:
  "getStoryChildrenRawSource
     (Component (js ''Story'')
        [Attribute (js ''name'') (ValueParts [Text (js ''Default'')]),
         Attribute (js ''children'') (ValueParts [ExpressionTag (Identifier (js ''missing''))])]
        [] 0 40)
     \<lparr> snippetBlocks = [SnippetBlock (js ''tmpl'') [OtherNode [] 20 30] 0 40],
       setTemplateCall = None, metaComponent = Some (Identifier (js ''Button'')) \<rparr>
     (js ''src'') (Some (js ''a.stories.svelte''))
   = Inr (js ''<Button {...args} />'')"
  by (simp add: locator_defs)

text \<open>
  C4, amended. For a self-closing marker whose \<open>children\<close> attribute is a single
  expression naming an identifier that matches no snippet block, the lookup of the snippet
  answers \<open>undefined\<close> and raises nothing, and the recovery falls back to the next cases:
  when the lookup of the \<open>setTemplate\<close> snippet finds a block with at least one body node,
  the result is the source of that body, from the start of its first node to the end of
  its last, without newlines and trimmed; when that lookup finds no block, the result is
  the placeholder \<open><Name {...args} />\<close>, where \<open>Name\<close> is the identifier the meta object
  gives as its component, or \<open>!unspecified\<close> when it gives none, and a component that is
  no identifier is the error "Invalid schema".
\<close>

theorem unmatched_children_reference_falls_through:
  assumes "lookupAttribute (js ''children'') a
             = Some (Attribute k (ValueParts [ExpressionTag (Identifier x)]))"
      and "findTemplateSnippetBlock x svelteASTNodes = None"
  shows "findChildrenPropSnippetBlock (Component n a [] s e) svelteASTNodes filename = Inr None
       \<and> (findSetTemplateSnippetBlock svelteASTNodes = Inr (Some block) \<longrightarrow>
          body block = first # others \<longrightarrow>
            getStoryChildrenRawSource (Component n a [] s e) svelteASTNodes originalCode filename
            = Inr (sanitizeCodeSlice
                     (slice originalCode (node_start first) (node_end (last (first # others))))))
       \<and> (findSetTemplateSnippetBlock svelteASTNodes = Inr None \<longrightarrow>
          metaComponent svelteASTNodes = Some (Identifier c) \<longrightarrow>
            getStoryChildrenRawSource (Component n a [] s e) svelteASTNodes originalCode filename
            = Inr (js ''<'' @ c @ js '' {...args} />''))
       \<and> (findSetTemplateSnippetBlock svelteASTNodes = Inr None \<longrightarrow>
          metaComponent svelteASTNodes = None \<longrightarrow>
            getStoryChildrenRawSource (Component n a [] s e) svelteASTNodes originalCode filename
            = Inr (js ''<!unspecified {...args} />''))
       \<and> (findSetTemplateSnippetBlock svelteASTNodes = Inr None \<longrightarrow>
          metaComponent svelteASTNodes = Some v \<longrightarrow> (\<forall>c. v \<noteq> Identifier c) \<longrightarrow>
            getStoryChildrenRawSource (Component n a [] s e) svelteASTNodes originalCode filename
            = Inl (Error (js ''Invalid schema'')))"
proof -
  have f: "findChildrenPropSnippetBlock (Component n a [] s e) svelteASTNodes filename = Inr None"
    using assms
    by (simp add: findChildrenPropSnippetBlock_def extractStoryAttributesNodes_children_def)
  have u: "js ''<'' @ js ''!unspecified'' @ js '' {...args} />'' = js ''<!unspecified {...args} />''"
    by (simp add: js_def)
  have inv: "metaComponent svelteASTNodes = Some v \<Longrightarrow> (\<forall>c. v \<noteq> Identifier c) \<Longrightarrow>
             getDefineMetaComponentName svelteASTNodes = Inl (Error (js ''Invalid schema''))"
    by (cases v) (simp_all add: getDefineMetaComponentName_def)
  show ?thesis
  proof (intro conjI impI)
    show "findChildrenPropSnippetBlock (Component n a [] s e) svelteASTNodes filename = Inr None"
      by (rule f)
  next
    assume "findSetTemplateSnippetBlock svelteASTNodes = Inr (Some block)" "body block = first # others"
    with f show "getStoryChildrenRawSource (Component n a [] s e) svelteASTNodes originalCode filename
            = Inr (sanitizeCodeSlice
                     (slice originalCode (node_start first) (node_end (last (first # others)))))"
      by (simp add: getStoryChildrenRawSource_def getSnippetBlockBodyRawCode_def rawCodeOf_def
          spanOf_def)
  next
    assume "findSetTemplateSnippetBlock svelteASTNodes = Inr None"
      "metaComponent svelteASTNodes = Some (Identifier c)"
    with f show "getStoryChildrenRawSource (Component n a [] s e) svelteASTNodes originalCode filename
            = Inr (js ''<'' @ c @ js '' {...args} />'')"
      by (simp add: getStoryChildrenRawSource_def getDefineMetaComponentName_def)
  next
    assume "findSetTemplateSnippetBlock svelteASTNodes = Inr None"
      "metaComponent svelteASTNodes = None"
    with f u show "getStoryChildrenRawSource (Component n a [] s e) svelteASTNodes originalCode filename
            = Inr (js ''<!unspecified {...args} />'')"
      by (simp add: getStoryChildrenRawSource_def getDefineMetaComponentName_def)
  next
    assume "findSetTemplateSnippetBlock svelteASTNodes = Inr None"
      "metaComponent svelteASTNodes = Some v" "\<forall>c. v \<noteq> Identifier c"
    with f inv show "getStoryChildrenRawSource (Component n a [] s e) svelteASTNodes originalCode filename
            = Inl (Error (js ''Invalid schema''))"
      by (simp add: getStoryChildrenRawSource_def)
  qed
qed

theorem unmatched_children_reference_falls_through_witness:
  "getStoryChildrenRawSource
     (Component (js ''Story'')
        [Attribute (js ''children'') (ValueParts [ExpressionTag (Identifier (js ''missing''))])]
        [] 0 40)
     \<lparr> snippetBlocks = [SnippetBlock (js ''tmpl'') [OtherNode [] 2 5, OtherNode [] 5 8] 0 10],
       setTemplateCall = Some [Identifier (js ''tmpl'')], metaComponent = None \<rparr>
     (js ''0123456789'') None
   = Inr (js ''234567'')
   \<and> getStoryChildrenRawSource
     (Component (js ''Story'')
        [Attribute (js ''children'') (ValueParts [ExpressionTag (Identifier (js ''missing''))])]
        [] 0 40)
     \<lparr> snippetBlocks = [SnippetBlock (js ''tmpl'') [OtherNode [] 2 5, OtherNode [] 5 8] 0 10],
       setTemplateCall = None, metaComponent = Some (Identifier (js ''Button'')) \<rparr>
     (js ''0123456789'') None
   = Inr (js ''<Button {...args} />'')
   \<and> getStoryChildrenRawSource
     (Component (js ''Story'')
        [Attribute (js ''children'') (ValueParts [ExpressionTag (Identifier (js ''missing''))])]
        [] 0 40)
     \<lparr> snippetBlocks = [], setTemplateCall = Some [Identifier (js ''gone'')], metaComponent = None \<rparr>
     (js ''0123456789'') None
   = Inr (js ''<!unspecified {...args} />'')
   \<and> getStoryChildrenRawSource
     (Component (js ''Story'')
        [Attribute (js ''children'') (ValueParts [ExpressionTag (Identifier (js ''missing''))])]
        [] 0 40)
     \<lparr> snippetBlocks = [], setTemplateCall = None, metaComponent = Some OtherExpression \<rparr>
     (js ''0123456789'') None
   = Inl (Error (js ''Invalid schema''))"
proof -
  let ?a = "[Attribute (js ''children'') (ValueParts [ExpressionTag (Identifier (js ''missing''))])]"
  let ?tmpl = "SnippetBlock (js ''tmpl'') [OtherNode [] 2 5, OtherNode [] 5 8] 0 10"
  let ?n1 = "\<lparr> snippetBlocks = [?tmpl],
       setTemplateCall = Some [Identifier (js ''tmpl'')], metaComponent = None \<rparr>"
  let ?n2 = "\<lparr> snippetBlocks = [?tmpl],
       setTemplateCall = None, metaComponent = Some (Identifier (js ''Button'')) \<rparr>"
  let ?n3 = "\<lparr> snippetBlocks = [], setTemplateCall = Some [Identifier (js ''gone'')],
       metaComponent = None \<rparr>"
  let ?n4 = "\<lparr> snippetBlocks = [], setTemplateCall = None, metaComponent = Some OtherExpression \<rparr>"
  have h1: "lookupAttribute (js ''children'') ?a
     = Some (Attribute (js ''children'') (ValueParts [ExpressionTag (Identifier (js ''missing''))]))"
    by (simp add: lookupAttribute_def)
  have m1: "findTemplateSnippetBlock (js ''missing'') ?n1 = None"
    and m2: "findTemplateSnippetBlock (js ''missing'') ?n2 = None"
    and m3: "findTemplateSnippetBlock (js ''missing'') ?n3 = None"
    and m4: "findTemplateSnippetBlock (js ''missing'') ?n4 = None"
    by (simp_all add: findTemplateSnippetBlock_def js_def)
  have t1: "findSetTemplateSnippetBlock ?n1 = Inr (Some ?tmpl)"
    by (simp add: findSetTemplateSnippetBlock_def findTemplateSnippetBlock_def)
  have b1: "body ?tmpl = OtherNode [] 2 5 # [OtherNode [] 5 8]"
    by simp
  have t2: "findSetTemplateSnippetBlock ?n2 = Inr None"
    and t3: "findSetTemplateSnippetBlock ?n3 = Inr None"
    and t4: "findSetTemplateSnippetBlock ?n4 = Inr None"
    by (simp_all add: findSetTemplateSnippetBlock_def findTemplateSnippetBlock_def)
  have c2: "metaComponent ?n2 = Some (Identifier (js ''Button''))"
    and c3: "metaComponent ?n3 = None"
    and c4: "metaComponent ?n4 = Some OtherExpression"
    and c4': "\<forall>c. OtherExpression \<noteq> Identifier c"
    by simp_all
  have s1: "sanitizeCodeSlice (slice (js ''0123456789'') (node_start (OtherNode [] 2 5))
              (node_end (last (OtherNode [] 2 5 # [OtherNode [] 5 8])))) = js ''234567''"
    by (simp add: sanitizeCodeSlice_def slice_def trim_def isWhiteSpace_def js_def)
  have p2: "js ''<'' @ js ''Button'' @ js '' {...args} />'' = js ''<Button {...args} />''"
    by (simp add: js_def)
  note inst = unmatched_children_reference_falls_through
    [where n = "js ''Story''" and s = 0 and e = 40 and filename = None
       and originalCode = "js ''0123456789''"]
  note r1 = inst [OF h1 m1, THEN conjunct2, THEN conjunct1, THEN mp, THEN mp, OF t1 b1]
  note r2 = inst [OF h1 m2, THEN conjunct2, THEN conjunct2, THEN conjunct1, THEN mp, THEN mp,
      OF t2 c2]
  note r3 = inst [OF h1 m3, THEN conjunct2, THEN conjunct2, THEN conjunct2, THEN conjunct1,
      THEN mp, THEN mp, OF t3 c3]
  note r4 = inst [OF h1 m4, THEN conjunct2, THEN conjunct2, THEN conjunct2, THEN conjunct2,
      THEN mp, THEN mp, THEN mp, OF t4 c4 c4']
  show ?thesis
    using r1 r2 r3 r4 unfolding s1 p2 by (intro conjI)
qed

section \<open>Properties of the compiled-output locator\<close>

lemma visitSpecifiers_error:
  "visitSpecifiers pkgName filename specifiers st = Inl err \<Longrightarrow>
   err = Error (defaultImportMessage pkgName filename)"
  by (induction specifiers arbitrary: st) (auto split: if_splits)

lemma visitSpecifiers_fails:
  "\<exists>sp \<in> set specifiers. \<not> is_ImportSpecifier sp \<Longrightarrow>
   visitSpecifiers pkgName filename specifiers st = Inl (Error (defaultImportMessage pkgName filename))"
  by (induction specifiers arbitrary: st) auto

lemma visitCompiled_error:
  "visitCompiled pkgName production filename n st = Inl err \<Longrightarrow>
     err = Error (defaultImportMessage pkgName filename)"
  "visitCompiled_all pkgName production filename ns st = Inl err \<Longrightarrow>
     err = Error (defaultImportMessage pkgName filename)"
proof (induction pkgName production filename n st and pkgName production filename ns st
    rule: visitCompiled_visitCompiled_all.induct)
  case (1 pkgName production filename source specifiers st)
  then show ?case
    by (auto simp: ImportDeclaration_visitor_def split: if_splits dest: visitSpecifiers_error)
next
  case (7 pkgName production filename n ns st)
  show ?case
  proof (cases "visitCompiled pkgName production filename n st")
    case (Inl e)
    with 7 show ?thesis by simp
  next
    case (Inr st')
    with 7 show ?thesis by simp
  qed
qed simp_all

lemma visitCompiled_all_fails:
  assumes "ImportDeclaration pkgName specifiers \<in> set program"
      and "\<exists>sp \<in> set specifiers. \<not> is_ImportSpecifier sp"
  shows "visitCompiled_all pkgName production filename program st
         = Inl (Error (defaultImportMessage pkgName filename))"
  using assms(1)
proof (induction program arbitrary: st)
  case Nil
  then show ?case by simp
next
  case (Cons n ns)
  show ?case
  proof (cases "visitCompiled pkgName production filename n st")
    case (Inl e)
    then have "e = Error (defaultImportMessage pkgName filename)"
      by (rule visitCompiled_error(1))
    with Inl show ?thesis by simp
  next
    case (Inr st')
    have "n \<noteq> ImportDeclaration pkgName specifiers"
    proof
      assume "n = ImportDeclaration pkgName specifiers"
      with Inr visitSpecifiers_fails [OF assms(2), of pkgName filename st] show False
        by (simp add: ImportDeclaration_visitor_def)
    qed
    with Cons.prems have "ImportDeclaration pkgName specifiers \<in> set ns"
      by auto
    from Cons.IH [OF this] Inr show ?thesis by simp
  qed
qed

section \<open>Properties of the indexer-mode walker\<close>

lemmas indexer_defs = parseForIndexer_def Root_indexer_def Component_indexer_def
  initial_indexer_state_def getStringValueFromAttribute_def
  getArrayOfStringsValueFromAttribute_def expressionStatement_def andThen_def
  lookupAttribute_def js_def noStoryIdentifiers_def

lemma visitMetaAttributes_keeps_state:
  "visitMetaAttributes filename attrs st = Inr st' \<Longrightarrow> st' = st"
proof (induction filename attrs st rule: visitMetaAttributes.induct)
  case (1 filename st)
  then show ?case by simp
next
  case (2 filename rest st)
  then show ?case by simp
next
  case (3 filename name v rest st)
  then show ?case
    by (auto simp: andThen_def expressionStatement_def split: sum.splits if_splits)
qed

text \<open>
  C5, on the code as written. In legacy mode, with no meta object found, a \<open><Meta>\<close> tag
  with \<open>title="Docs/Button"\<close> and \<open>tags={['autodocs']}\<close> leaves \<open>meta.title\<close> and
  \<open>meta.tags\<close> unset: the handler compares with \<open>===\<close> where it should assign.
\<close>

theorem legacy_meta_attributes_are_dropped:
  "parseForIndexer noStoryIdentifiers (js ''Button.stories.svelte'') True
     \<lparr> root_module = None,
       root_fragment =
         [Component (js ''Meta'')
            [Attribute (js ''title'') (ValueParts [Text (js ''Docs/Button'')]),
             Attribute (js ''tags'')
               (ValueParts [ExpressionTag (ArrayExpression [Literal (StringLiteral (js ''autodocs''))])])]
            [] 0 40] \<rparr>
   = Inr \<lparr> results_title = None, results_tags = None, results_stories = [] \<rparr>"
  by (simp add: indexer_defs)

text \<open>
  C8, as stated, fails in the indexer pass: with legacy mode off, a stories file whose
  module script holds \<open>import csf from "@storybook/addon-svelte-csf"\<close> is indexed without
  any error.
\<close>

theorem default_import_not_reported_by_indexer_counterexample:
  "parseForIndexer noStoryIdentifiers (js ''Button.stories.svelte'') False
     \<lparr> root_module =
         Some [ImportDeclaration (js ''@storybook/addon-svelte-csf'') [ImportDefaultSpecifier (js ''csf'')]],
       root_fragment = [] \<rparr>
   = Inr \<lparr> results_title = None, results_tags = None, results_stories = [] \<rparr>"
  by (simp add: indexer_defs)

text \<open>
  C8, amended. In the compiled-output locator pass, a program whose body holds an import
  from the marker package with a default or namespace specifier makes the extraction fail
  with the error whose message ends with the file name. In the indexer pass with legacy
  mode off, an import declaration in the module script is not examined: the result is the
  same with and without it.
\<close>

theorem default_import_is_fatal_in_compiled_pass:
  "(ImportDeclaration pkgName specifiers \<in> set program \<longrightarrow>
    (\<exists>sp \<in> set specifiers. \<not> is_ImportSpecifier sp) \<longrightarrow>
      extractCompiledASTNodes pkgName production program filename
        = Inl (Error (defaultImportMessage pkgName filename))
      \<and> (\<exists>text. defaultImportMessage pkgName filename = text @ showFilename filename))
   \<and> parseForIndexer g indexedFile False
        \<lparr> root_module = Some (ImportDeclaration source specs # statements), root_fragment = nodes \<rparr>
     = parseForIndexer g indexedFile False
        \<lparr> root_module = Some statements, root_fragment = nodes \<rparr>"
proof (intro conjI impI)
  assume a: "ImportDeclaration pkgName specifiers \<in> set program"
     and b: "\<exists>sp \<in> set specifiers. \<not> is_ImportSpecifier sp"
  show "extractCompiledASTNodes pkgName production program filename
           = Inl (Error (defaultImportMessage pkgName filename))"
    by (simp add: extractCompiledASTNodes_def visitCompiled_all_fails [OF a b])
next
  show "\<exists>text. defaultImportMessage pkgName filename = text @ showFilename filename"
    unfolding defaultImportMessage_def
    by (metis append.assoc)
next
  show "parseForIndexer g indexedFile False
        \<lparr> root_module = Some (ImportDeclaration source specs # statements), root_fragment = nodes \<rparr>
     = parseForIndexer g indexedFile False
        \<lparr> root_module = Some statements, root_fragment = nodes \<rparr>"
    by (simp add: parseForIndexer_def Root_indexer_def)
qed

theorem default_import_is_fatal_in_compiled_pass_witness:
  "extractCompiledASTNodes (js ''@storybook/addon-svelte-csf'') False
     [FunctionDeclaration (Some (js ''Button_stories'')),
      ImportDeclaration (js ''@storybook/addon-svelte-csf'') [ImportNamespaceSpecifier (js ''csf'')]]
     (Some (js ''Button.stories.svelte''))
   = Inl (Error (defaultImportMessage (js ''@storybook/addon-svelte-csf'')
                   (Some (js ''Button.stories.svelte''))))"
proof -
  have h1: "ImportDeclaration (js ''@storybook/addon-svelte-csf'') [ImportNamespaceSpecifier (js ''csf'')]
      \<in> set [FunctionDeclaration (Some (js ''Button_stories'')),
      ImportDeclaration (js ''@storybook/addon-svelte-csf'') [ImportNamespaceSpecifier (js ''csf'')]]"
    by simp
  have h2: "\<exists>sp \<in> set [ImportNamespaceSpecifier (js ''csf'')]. \<not> is_ImportSpecifier sp"
    by simp
  from default_import_is_fatal_in_compiled_pass
    [THEN conjunct1, THEN mp, THEN mp, OF h1 h2, THEN conjunct1]
  show ?thesis .
qed

end
